theory Spec2Isabelle
  imports Complex_Main
begin

section \<open>GAR analysis: classification, area accumulation, targets and ranks\<close>

text \<open>
  A shallow embedding of the regulation modules \<^verbatim>\<open>gar/gar_*.py\<close> and of the area classes of
  \<^verbatim>\<open>util/gar_classes.py\<close>.

  Conventions of the embedding:
  \<^item> a Python \<^verbatim>\<open>float\<close> is a \<^typ>\<open>real\<close>: the arithmetic is exact, rounding is not modelled;
  \<^item> a nullable argument is an \<^typ>\<open>'a option\<close>, and \<^verbatim>\<open>if x:\<close> is \<open>truthy x\<close>;
  \<^item> a \<^verbatim>\<open>defaultdict\<close> is an association list in insertion order, which is the order in
    which Python iterates it; reading a missing key appends the factory's value;
  \<^item> an exception is the \<open>Inl\<close> of a sum; the state the call had mutated so far is dropped.
\<close>

subsection \<open>Python values\<close>

datatype error = TypeError | KeyError | ZeroDivisionError

definition truthy :: "'a::zero option \<Rightarrow> bool" where
  "truthy x = (case x of None \<Rightarrow> False | Some v \<Rightarrow> v \<noteq> 0)"

definition startswith :: "string \<Rightarrow> string \<Rightarrow> bool" where
  "startswith s p = (take (length p) s = p)"

definition startswith_any :: "string \<Rightarrow> string list \<Rightarrow> bool" where
  "startswith_any s ps = list_ex (startswith s) ps"

definition replace_spaces :: "string \<Rightarrow> string" where
  "replace_spaces s = filter (\<lambda>c. c \<noteq> CHR '' '') s"

subsection \<open>defaultdict\<close>

fun dd_get :: "'v \<Rightarrow> ('k \<times> 'v) list \<Rightarrow> 'k \<Rightarrow> 'v" where
  "dd_get d [] k = d"
| "dd_get d ((k', v) # m) k = (if k' = k then v else dd_get d m k)"

fun dd_upd :: "'v \<Rightarrow> ('k \<times> 'v) list \<Rightarrow> 'k \<Rightarrow> ('v \<Rightarrow> 'v) \<Rightarrow> ('k \<times> 'v) list" where
  "dd_upd d [] k f = [(k, f d)]"
| "dd_upd d ((k', v) # m) k f =
     (if k' = k then (k', f v) # m else (k', v) # dd_upd d m k f)"

fun for_each :: "('a \<Rightarrow> 's \<Rightarrow> error + 's) \<Rightarrow> 'a list \<Rightarrow> 's \<Rightarrow> error + 's" where
  "for_each f [] s = Inr s"
| "for_each f (x # xs) s =
     (case f x s of Inl e \<Rightarrow> Inl e | Inr s' \<Rightarrow> for_each f xs s')"

subsection \<open>The area classes (gar\_classes.py)\<close>

record BEC =
  b_hectares :: real
  b_rank :: "string option"

record Level =
  l_bec :: "(string \<times> BEC) list"
  l_hectares :: real
  l_total_hectares :: real
  l_rank :: "string option"
  l_target :: real
  l_stand_hectares :: real

record CellArea =
  c_level :: "(string option \<times> Level) list"
  c_hectares :: real
  c_target :: "real option"
  c_nthlb_hectares :: real
  c_sic_hectares :: real
  c_ch_hectares :: real
  c_nh_hectares :: real
  c_imm_hectares :: real
  c_mat_hectares :: real
  c_stand_hectares :: real

record 'p TotalArea =
  t_pcell :: "('p \<times> CellArea) list"

definition new_BEC :: BEC where
  "new_BEC = \<lparr>b_hectares = 0, b_rank = None\<rparr>"

definition new_Level :: Level where
  "new_Level = \<lparr>l_bec = [], l_hectares = 0, l_total_hectares = 0, l_rank = None,
     l_target = 0, l_stand_hectares = 0\<rparr>"

definition new_CellArea :: CellArea where
  "new_CellArea = \<lparr>c_level = [], c_hectares = 0, c_target = Some 0, c_nthlb_hectares = 0,
     c_sic_hectares = 0, c_ch_hectares = 0, c_nh_hectares = 0, c_imm_hectares = 0,
     c_mat_hectares = 0, c_stand_hectares = 0\<rparr>"

definition new_TotalArea :: "'p TotalArea" where
  "new_TotalArea = \<lparr>t_pcell = []\<rparr>"

text \<open>Accessors along the nesting \<^verbatim>\<open>cell.level[level].bec[bec]\<close>.\<close>

definition get_level :: "CellArea \<Rightarrow> string option \<Rightarrow> Level" where
  "get_level c level = dd_get new_Level (c_level c) level"

definition upd_level :: "string option \<Rightarrow> (Level \<Rightarrow> Level) \<Rightarrow> CellArea \<Rightarrow> CellArea" where
  "upd_level level f c = c\<lparr>c_level := dd_upd new_Level (c_level c) level f\<rparr>"

definition get_bec :: "CellArea \<Rightarrow> string option \<Rightarrow> string \<Rightarrow> BEC" where
  "get_bec c level bec = dd_get new_BEC (l_bec (get_level c level)) bec"

definition upd_bec :: "string option \<Rightarrow> string \<Rightarrow> (BEC \<Rightarrow> BEC) \<Rightarrow> CellArea \<Rightarrow> CellArea" where
  "upd_bec level bec f c =
     upd_level level (\<lambda>l. l\<lparr>l_bec := dd_upd new_BEC (l_bec l) bec f\<rparr>) c"

definition get_cell :: "('p \<times> CellArea) list \<Rightarrow> 'p \<Rightarrow> CellArea" where
  "get_cell m pcell = dd_get new_CellArea m pcell"

definition upd_cell :: "'p \<Rightarrow> (CellArea \<Rightarrow> CellArea) \<Rightarrow> ('p \<times> CellArea) list \<Rightarrow> ('p \<times> CellArea) list" where
  "upd_cell pcell f m = dd_upd new_CellArea m pcell f"

subsection \<open>The state and the arguments of a regulation module\<close>

record 'p gar =
  dict_total_area :: "(string \<times> 'p TotalArea) list"
  dict_cell_area :: "('p \<times> CellArea) list"
  dict_zero_target :: "(string \<times> 'p set) list"
  lst_cells :: "'p list"
  ranks :: bool

definition new_gar :: "'p gar" where
  "new_gar = \<lparr>dict_total_area = [], dict_cell_area = [], dict_zero_target = [],
     lst_cells = [], ranks = False\<rparr>"

record 'p args =
  bec :: string
  age :: "int option"
  spp :: string
  cc :: "int option"
  slp :: "string option"
  thlb :: "real option"
  diam :: "real option"
  pct :: "int option"
  gfa :: "string option"
  "notes" :: string
  op_area :: string
  pcell :: 'p
  shp_area :: real
  target :: "real option"
  height :: "real option"

definition get_total :: "'p gar \<Rightarrow> string \<Rightarrow> 'p \<Rightarrow> CellArea" where
  "get_total s oa p = get_cell (t_pcell (dd_get new_TotalArea (dict_total_area s) oa)) p"

definition upd_total :: "string \<Rightarrow> 'p \<Rightarrow> (CellArea \<Rightarrow> CellArea) \<Rightarrow> 'p gar \<Rightarrow> 'p gar" where
  "upd_total oa p f s =
     s\<lparr>dict_total_area := dd_upd new_TotalArea (dict_total_area s) oa
          (\<lambda>t. t\<lparr>t_pcell := upd_cell p f (t_pcell t)\<rparr>)\<rparr>"

definition upd_cell_area :: "'p \<Rightarrow> (CellArea \<Rightarrow> CellArea) \<Rightarrow> 'p gar \<Rightarrow> 'p gar" where
  "upd_cell_area p f s = s\<lparr>dict_cell_area := upd_cell p f (dict_cell_area s)\<rparr>"

text \<open>The tail every \<^verbatim>\<open>calculate_level\<close> shares: the registry of cells seen and the
  registry of zero targets.\<close>

definition register_cell :: "'p \<Rightarrow> 'p gar \<Rightarrow> 'p gar" where
  "register_cell p s = (if p \<notin> set (lst_cells s) then s\<lparr>lst_cells := lst_cells s @ [p]\<rparr> else s)"

definition register_zero_target :: "string \<Rightarrow> real option \<Rightarrow> 'p \<Rightarrow> 'p gar \<Rightarrow> 'p gar" where
  "register_zero_target oa tgt p s =
     (if oa \<noteq> [] \<and> tgt = Some 0
      then s\<lparr>dict_zero_target := dd_upd {} (dict_zero_target s) oa (insert p)\<rparr> else s)"

definition add_hectares :: "real \<Rightarrow> CellArea \<Rightarrow> CellArea" where
  "add_hectares a c = c\<lparr>c_hectares := c_hectares c + a\<rparr>"

definition add_level_hectares :: "string option \<Rightarrow> real \<Rightarrow> CellArea \<Rightarrow> CellArea" where
  "add_level_hectares level a c = upd_level level (\<lambda>l. l\<lparr>l_hectares := l_hectares l + a\<rparr>) c"

definition add_bec_hectares :: "string option \<Rightarrow> string \<Rightarrow> real \<Rightarrow> CellArea \<Rightarrow> CellArea" where
  "add_bec_hectares level b a c = upd_bec level b (\<lambda>x. x\<lparr>b_hectares := b_hectares x + a\<rparr>) c"

definition str_ch :: string where "str_ch = ''CH''"
definition str_nh :: string where "str_nh = ''NH''"

subsection \<open>Gar8006: calculate\_cell\_ranks\<close>

definition str_imm_8006 :: string where "str_imm_8006 = ''Immature''"
definition str_mature :: string where "str_mature = ''Mature Cover''"

definition lst_level_8006 :: "string list" where
  "lst_level_8006 = [''Mature Cover'', ''Recruit 1'', ''Recruit 2'', ''Recruit 3'', ''Recruit 4'',
     ''Recruit 5'', ''Recruit 6'', ''Recruit 7'', ''Recruit 8'', ''Recruit 9'', ''Recruit 10'',
     ''Recruit 11'']"

text \<open>The body of \<^verbatim>\<open>for level in self.lst_level\<close>, on the cell, the running total and the
  local \<^verbatim>\<open>rank\<close>. Reading \<^verbatim>\<open>level[level].hectares\<close> creates the level when it is
  missing; \<^verbatim>\<open>running_total <= target\<close> raises on a target that is None.\<close>

definition rank_level_8006 ::
  "real option \<Rightarrow> string \<Rightarrow> CellArea \<times> real \<times> string \<Rightarrow> error + CellArea \<times> real \<times> string" where
  "rank_level_8006 tgt level st =
     (case st of (c0, running_total, rank) \<Rightarrow>
      let c = upd_level (Some level) id c0;
          level_area = l_hectares (get_level c (Some level))
      in if level_area = 0 then Inr (c, running_total, rank)
         else if rank \<noteq> str_ch then
           (case tgt of None \<Rightarrow> Inl TypeError
            | Some t \<Rightarrow>
              let running_total' = running_total + level_area;
                  rank' = (if running_total' \<le> t then str_nh else str_ch);
                  c1 = upd_level (Some level) (\<lambda>l. l\<lparr>l_rank := Some rank'\<rparr>) c;
                  c2 = (if level \<notin> set [str_mature] then
                          (if rank' = str_ch
                             then c1\<lparr>c_ch_hectares := c_ch_hectares c1 + level_area\<rparr>
                           else if rank' = str_nh
                             then c1\<lparr>c_nh_hectares := c_nh_hectares c1 + level_area\<rparr>
                           else c1)
                        else c1)
              in Inr (c2, running_total', rank'))
         else Inr (c, running_total, rank))"

definition rank_cell_8006 :: "CellArea \<Rightarrow> error + CellArea" where
  "rank_cell_8006 c =
     (case for_each (rank_level_8006 (c_target c)) lst_level_8006 (c, 0, [])
      of Inl e \<Rightarrow> Inl e | Inr st \<Rightarrow> Inr (fst st))"

definition calculate_cell_ranks_8006 :: "('p \<times> CellArea) list \<Rightarrow> error + ('p \<times> CellArea) list" where
  "calculate_cell_ranks_8006 dict =
     for_each (\<lambda>p d. case rank_cell_8006 (get_cell d p) of
                        Inl e \<Rightarrow> Inl e
                      | Inr c \<Rightarrow> Inr (upd_cell p (\<lambda>_. c) d))
       (map fst dict) dict"

subsection \<open>Gar8001: calculate\_cell\_ranks\<close>

definition str_imm_8001 :: string where "str_imm_8001 = ''Immature''"
definition str_nthlb_sic :: string where "str_nthlb_sic = ''NTHLB SIC''"
definition str_sic :: string where "str_sic = ''SIC''"

definition lst_level_8001 :: "string list" where
  "lst_level_8001 = [''NTHLB SIC'', ''SIC'', ''NTHLB Recruit 1'', ''Recruit 1'',
     ''NTHLB Recruit 2'', ''Recruit 2'', ''NTHLB Recruit 3'', ''Recruit 3'', ''NTHLB Recruit 4'',
     ''Recruit 4'', ''NTHLB Recruit 5'', ''Recruit 5'', ''NTHLB Recruit 6'', ''Recruit 6'',
     ''NTHLB Recruit 7'', ''Recruit 7'', ''NTHLB Recruit 8'', ''Recruit 8'', ''NTHLB Recruit 9'',
     ''Recruit 9'', ''NTHLB Recruit 10'', ''Recruit 10'', ''NTHLB Recruit 11'', ''Recruit 11'',
     ''NTHLB Recruit 12'', ''Recruit 12'']"

text \<open>Lines 350 to 364: the rank update under \<^verbatim>\<open>if rank != self.str_ch\<close>, then the
  level's displayed hectares, for a bucket that counts \<open>bec_area\<close>.\<close>

definition rank_update_8001 ::
  "real \<Rightarrow> string \<Rightarrow> string \<Rightarrow> real \<Rightarrow> CellArea \<times> real \<times> string \<Rightarrow> CellArea \<times> real \<times> string" where
  "rank_update_8001 t level b bec_area st =
     (case st of (c, running_total, rank) \<Rightarrow>
      let st' =
        (if rank \<noteq> str_ch then
           let running_total' = running_total + bec_area;
               rank' = (if running_total' \<le> t then str_nh else str_ch);
               c1 = upd_bec (Some level) b (\<lambda>x. x\<lparr>b_rank := Some rank'\<rparr>) c;
               c2 = upd_level (Some level) (\<lambda>l. l\<lparr>l_rank := Some rank'\<rparr>) c1;
               c3 = (if level \<notin> set [str_nthlb_sic, str_sic] then
                       (if rank' = str_ch
                          then c2\<lparr>c_ch_hectares := c_ch_hectares c2 + bec_area\<rparr>
                        else if rank' = str_nh
                          then c2\<lparr>c_nh_hectares := c_nh_hectares c2 + bec_area\<rparr>
                        else c2)
                     else c2)
           in (c3, running_total', rank')
         else (c, running_total, rank))
      in (add_level_hectares (Some level) bec_area (fst st'), snd st'))"

text \<open>Lines 336 to 364: the body of \<^verbatim>\<open>for bec in dict_cell_area[pcell].level[level].bec\<close>.\<close>

definition rank_bec_8001 ::
  "real \<Rightarrow> string \<Rightarrow> string \<Rightarrow> CellArea \<times> real \<times> string \<Rightarrow> CellArea \<times> real \<times> string" where
  "rank_bec_8001 t level b st =
     (case st of (c, running_total, rank) \<Rightarrow>
      let target_50 = t * 0.5;
          bec_area = b_hectares (get_bec c (Some level) b)
      in if level = str_nthlb_sic then
           let capped = (\<not> startswith b ''IDFmw'' \<and> bec_area \<ge> target_50);
               c1 = (if capped
                     then upd_bec (Some level) b (\<lambda>x. x\<lparr>b_hectares := target_50\<rparr>) c else c);
               bec_area' = (if capped then b_hectares (get_bec c1 (Some level) b) else bec_area);
               c2 = (if startswith_any b [''IDFdk'', ''IDFdm'', ''ICHdw'', ''MS'']
                     then c1\<lparr>c_nthlb_hectares := c_nthlb_hectares c1 + bec_area'\<rparr> else c1);
               c3 = c2\<lparr>c_sic_hectares := c_sic_hectares c2 + bec_area'\<rparr>
           in rank_update_8001 t level b bec_area' (c3, running_total, rank)
         else if level = str_sic then
           rank_update_8001 t level b bec_area
             (c\<lparr>c_sic_hectares := c_sic_hectares c + bec_area\<rparr>, running_total, rank)
         else if level = str_imm_8001 then
           (c\<lparr>c_imm_hectares := c_imm_hectares c + bec_area\<rparr>, running_total, rank)
         else rank_update_8001 t level b bec_area (c, running_total, rank))"

text \<open>The body of \<^verbatim>\<open>for level in self.lst_level + [self.str_imm]\<close>: reading
  \<^verbatim>\<open>level[level]\<close> creates the level, and the inner loop runs over the keys of its
  \<^verbatim>\<open>bec\<close> dictionary, which the loop body never changes.\<close>

definition rank_level_8001 ::
  "real \<Rightarrow> string \<Rightarrow> CellArea \<times> real \<times> string \<Rightarrow> CellArea \<times> real \<times> string" where
  "rank_level_8001 t level st =
     (case st of (c0, running_total, rank) \<Rightarrow>
      let c = upd_level (Some level) id c0
      in fold (rank_bec_8001 t level) (map fst (l_bec (get_level c (Some level))))
           (c, running_total, rank))"

text \<open>One iteration of \<^verbatim>\<open>for pcell in dict_cell_area\<close>; \<^verbatim>\<open>target * 0.5\<close> raises
  on a target that is None.\<close>

definition rank_cell_8001 :: "CellArea \<Rightarrow> error + CellArea" where
  "rank_cell_8001 c =
     (case c_target c of None \<Rightarrow> Inl TypeError
      | Some t \<Rightarrow>
          Inr (fst (fold (rank_level_8001 t) (lst_level_8001 @ [str_imm_8001]) (c, 0, []))))"

definition calculate_cell_ranks_8001 :: "('p \<times> CellArea) list \<Rightarrow> error + ('p \<times> CellArea) list" where
  "calculate_cell_ranks_8001 dict =
     for_each (\<lambda>p d. case rank_cell_8001 (get_cell d p) of
                        Inl e \<Rightarrow> Inl e
                      | Inr c \<Rightarrow> Inr (upd_cell p (\<lambda>_. c) d))
       (map fst dict) dict"

subsection \<open>Gar8001: calculate\_level\<close>

text \<open>The age ladders of the source, each an \<^verbatim>\<open>if/elif\<close> chain without an
  \<^verbatim>\<open>else\<close>: an age outside every band leaves the level as it was.\<close>

definition bands_shallow :: "int \<Rightarrow> string option \<Rightarrow> string option" where
  \<comment> \<open>lines 110 to 125, and again lines 148 to 163\<close>
  "bands_shallow x level =
     (if 130 \<le> x \<and> x \<le> 139 then Some ''Recruit 1''
      else if 120 \<le> x \<and> x \<le> 129 then Some ''Recruit 2''
      else if 110 \<le> x \<and> x \<le> 119 then Some ''Recruit 3''
      else if 100 \<le> x \<and> x \<le> 109 then Some ''Recruit 4''
      else if 90 \<le> x \<and> x \<le> 99 then Some ''Recruit 5''
      else if 80 \<le> x \<and> x \<le> 89 then Some ''Recruit 6''
      else if 70 \<le> x \<and> x \<le> 79 then Some ''Recruit 7''
      else if 60 \<le> x \<and> x \<le> 69 then Some ''Recruit 8''
      else level)"

definition bands_nthlb_mw :: "int \<Rightarrow> int \<Rightarrow> string option" where
  \<comment> \<open>lines 172 to 187\<close>
  "bands_nthlb_mw c x =
     (if (36 \<le> c \<and> c < 50) \<and> (130 \<le> x \<and> x \<le> 139) then Some ''NTHLB Recruit 1''
      else if (36 \<le> c \<and> c < 50) \<and> (120 \<le> x \<and> x \<le> 129) then Some ''NTHLB Recruit 2''
      else if 110 \<le> x \<and> x \<le> 119 then Some ''NTHLB Recruit 3''
      else if 100 \<le> x \<and> x \<le> 109 then Some ''NTHLB Recruit 4''
      else if 90 \<le> x \<and> x \<le> 99 then Some ''NTHLB Recruit 5''
      else if 80 \<le> x \<and> x \<le> 89 then Some ''NTHLB Recruit 6''
      else if 70 \<le> x \<and> x \<le> 79 then Some ''NTHLB Recruit 7''
      else if 60 \<le> x \<and> x \<le> 69 then Some ''NTHLB Recruit 8''
      else None)"

definition bands_moderate :: "int \<Rightarrow> string option \<Rightarrow> string option" where
  \<comment> \<open>lines 203 to 226\<close>
  "bands_moderate x level =
     (if 165 \<le> x \<and> x \<le> 174 then Some ''Recruit 1''
      else if 155 \<le> x \<and> x \<le> 164 then Some ''Recruit 2''
      else if 145 \<le> x \<and> x \<le> 154 then Some ''Recruit 3''
      else if 135 \<le> x \<and> x \<le> 144 then Some ''Recruit 4''
      else if 125 \<le> x \<and> x \<le> 134 then Some ''Recruit 5''
      else if 115 \<le> x \<and> x \<le> 124 then Some ''Recruit 6''
      else if 105 \<le> x \<and> x \<le> 114 then Some ''Recruit 7''
      else if 95 \<le> x \<and> x \<le> 104 then Some ''Recruit 8''
      else if 85 \<le> x \<and> x \<le> 94 then Some ''Recruit 9''
      else if 75 \<le> x \<and> x \<le> 84 then Some ''Recruit 10''
      else if 65 \<le> x \<and> x \<le> 74 then Some ''Recruit 11''
      else if 55 \<le> x \<and> x \<le> 64 then Some ''Recruit 12''
      else level)"

definition bands_nthlb_moderate :: "int \<Rightarrow> string option" where
  \<comment> \<open>lines 235 to 248\<close>
  "bands_nthlb_moderate x =
     (if 115 \<le> x \<and> x \<le> 119 then Some ''NTHLB Recruit 6''
      else if 105 \<le> x \<and> x \<le> 114 then Some ''NTHLB Recruit 7''
      else if 95 \<le> x \<and> x \<le> 104 then Some ''NTHLB Recruit 8''
      else if 85 \<le> x \<and> x \<le> 94 then Some ''NTHLB Recruit 9''
      else if 75 \<le> x \<and> x \<le> 84 then Some ''NTHLB Recruit 10''
      else if 65 \<le> x \<and> x \<le> 74 then Some ''NTHLB Recruit 11''
      else if 55 \<le> x \<and> x \<le> 64 then Some ''NTHLB Recruit 12''
      else None)"

definition bands_deep_46 :: "int \<Rightarrow> real \<Rightarrow> string option" where
  \<comment> \<open>lines 257 to 266\<close>
  "bands_deep_46 x d =
     (if x \<ge> 100 \<or> (d \<ge> 40 \<and> x > 0) then Some ''SIC''
      else if (90 \<le> x \<and> x \<le> 99) \<and> d < 40 then Some ''Recruit 1''
      else if (80 \<le> x \<and> x \<le> 89) \<and> d < 40 then Some ''Recruit 2''
      else if (70 \<le> x \<and> x \<le> 79) \<and> d < 40 then Some ''Recruit 6''
      else if (60 \<le> x \<and> x \<le> 79) \<and> d < 40 then Some ''Recruit 8''
      else None)"

definition bands_deep_36 :: "int \<Rightarrow> real \<Rightarrow> string option" where
  \<comment> \<open>lines 269 to 278\<close>
  "bands_deep_36 x d =
     (if x \<ge> 100 \<or> (d \<ge> 40 \<and> x > 0) then Some ''Recruit 3''
      else if (90 \<le> x \<and> x \<le> 99) \<and> d < 40 then Some ''Recruit 4''
      else if (80 \<le> x \<and> x \<le> 89) \<and> d < 40 then Some ''Recruit 5''
      else if (70 \<le> x \<and> x \<le> 79) \<and> d < 40 then Some ''Recruit 7''
      else if (60 \<le> x \<and> x \<le> 69) \<and> d < 40 then Some ''Recruit 9''
      else None)"

text \<open>The terminal-category test of lines 142 and 196, with the age threshold \<open>T\<close>:
  \<^verbatim>\<open>(age is not None and age >= T) or (diam is not None and diam >= 40 and age is not None and age > 0)\<close>.\<close>

definition is_sic :: "int \<Rightarrow> int option \<Rightarrow> real option \<Rightarrow> bool" where
  "is_sic T ag dm =
     ((case ag of None \<Rightarrow> False | Some x \<Rightarrow> x \<ge> T) \<or>
      (case dm of None \<Rightarrow> False
       | Some d \<Rightarrow> d \<ge> 40 \<and> (case ag of None \<Rightarrow> False | Some x \<Rightarrow> x > 0)))"

text \<open>Lines 147 and 202: the recruitment ladder under \<^verbatim>\<open>if diam is not None and diam < 40\<close>
  and \<^verbatim>\<open>if age\<close>.\<close>

definition recruit_under_40 ::
  "(int \<Rightarrow> string option \<Rightarrow> string option) \<Rightarrow> int option \<Rightarrow> real option \<Rightarrow> string option \<Rightarrow> string option" where
  "recruit_under_40 bands ag dm level =
     (case dm of None \<Rightarrow> level
      | Some d \<Rightarrow>
          if d < 40 then
            (case ag of None \<Rightarrow> level | Some x \<Rightarrow> if x \<noteq> 0 then bands x level else level)
          else level)"

text \<open>Lines 106 to 278: the zone rules, on the bec without spaces and the thlb as a float.
  A comparison of None with a number raises TypeError: the crown closure at line 190, the
  age at lines 172 to 176 (whichever comparison the chain reaches first), the species
  percent at line 230.\<close>

definition zone_level_8001 :: "string \<Rightarrow> real \<Rightarrow> 'p args \<Rightarrow> error + string option" where
  "zone_level_8001 bec' thlb' a =
     (if startswith_any bec' [''BG'', ''PP'', ''IDFxh''] \<and> startswith (spp a) ''F'' then
        (case age a of None \<Rightarrow> Inr None
         | Some x \<Rightarrow>
             if x \<noteq> 0 then Inr (if x \<ge> 140 then Some ''SIC'' else bands_shallow x None)
             else Inr None)
      else if startswith bec' ''IDFmw'' then
        (if startswith (spp a) ''F'' \<and> slp a \<noteq> Some ''80+'' then
           (if thlb' > 0 then
              (if (case cc a of None \<Rightarrow> False | Some c \<Rightarrow> c \<noteq> 0 \<and> c \<ge> 36) then
                 Inr (recruit_under_40 bands_shallow (age a) (diam a)
                        (if is_sic 140 (age a) (diam a) then Some ''SIC'' else None))
               else Inr None)
            else if thlb' = 0 then
              (if (truthy (cc a) \<and> truthy (age a) \<and> truthy (pct a)) \<and>
                  (case cc a of None \<Rightarrow> False | Some c \<Rightarrow> c \<ge> 50) \<and>
                  (case age a of None \<Rightarrow> False | Some x \<Rightarrow> x \<ge> 120) \<and>
                  (case pct a of None \<Rightarrow> False | Some q \<Rightarrow> q \<ge> 50)
               then Inr (Some ''NTHLB SIC'')
               else
                 (case cc a of None \<Rightarrow> Inr None
                  | Some c \<Rightarrow>
                      if c \<noteq> 0 \<and> c \<ge> 36 then
                        (case age a of None \<Rightarrow> Inl TypeError
                         | Some x \<Rightarrow> Inr (bands_nthlb_mw c x))
                      else Inr None))
            else Inr None)
         else Inr None)
      else if startswith_any bec' [''IDFdk'', ''IDFdm'', ''ICHdw'', ''MS''] then
        (if startswith (spp a) ''F'' then
           (case cc a of None \<Rightarrow> Inl TypeError
            | Some c \<Rightarrow>
                if c \<ge> 36 \<and> slp a \<noteq> Some ''80+'' then
                  (if thlb' > 0 then
                     Inr (recruit_under_40 bands_moderate (age a) (diam a)
                            (if is_sic 175 (age a) (diam a) then Some ''SIC'' else None))
                   else if thlb' = 0 then
                     (case age a of None \<Rightarrow> Inr None
                      | Some x \<Rightarrow>
                          if x \<noteq> 0 then
                            (if x \<ge> 120 then
                               (case pct a of None \<Rightarrow> Inl TypeError
                                | Some q \<Rightarrow>
                                    if q \<ge> 50 then Inr (Some ''NTHLB SIC'')
                                    else Inr (bands_nthlb_moderate x))
                             else Inr (bands_nthlb_moderate x))
                          else Inr None)
                   else Inr None)
                else Inr None)
         else Inr None)
      else if startswith bec' ''ICH'' \<and> \<not> startswith bec' ''ICHdw'' then
        (if startswith (spp a) ''F'' then
           (if (case cc a of None \<Rightarrow> False | Some c \<Rightarrow> c \<noteq> 0 \<and> c \<ge> 46) then
              (case (age a, diam a) of
                 (Some x, Some d) \<Rightarrow> if x \<noteq> 0 \<and> d \<noteq> 0 then Inr (bands_deep_46 x d) else Inr None
               | _ \<Rightarrow> Inr None)
            else if (case cc a of None \<Rightarrow> False | Some c \<Rightarrow> c \<noteq> 0 \<and> (36 \<le> c \<and> c < 46)) then
              (case (age a, diam a) of
                 (Some x, Some d) \<Rightarrow> if x \<noteq> 0 \<and> d \<noteq> 0 then Inr (bands_deep_36 x d) else Inr None
               | _ \<Rightarrow> Inr None)
            else Inr None)
         else Inr None)
      else Inr None)"

text \<open>Lines 99 to 282: the level of a record. It reads the arguments only.\<close>

definition level_8001 :: "'p args \<Rightarrow> error + string option" where
  "level_8001 a =
     (let bec' = replace_spaces (bec a);
          thlb' = (case thlb a of None \<Rightarrow> 0 | Some v \<Rightarrow> if v \<noteq> 0 then v else 0)
      in case zone_level_8001 bec' thlb' a of
           Inl e \<Rightarrow> Inl e
         | Inr level \<Rightarrow>
             Inr (if (case age a of None \<Rightarrow> False | Some x \<Rightarrow> x \<noteq> 0 \<and> x < 20) then
                    (if startswith_any bec' [''IDFdk'', ''IDFdm'', ''ICHdw'', ''MS'', ''IDFmw'']
                     then Some str_imm_8001 else level)
                  else level))"

text \<open>Lines 284 to 295: the accumulation. The unclassified level None is a key like any
  other.\<close>

definition calculate_level_8001 :: "'p gar \<Rightarrow> 'p args \<Rightarrow> error + string option \<times> 'p gar" where
  "calculate_level_8001 s a =
     (case level_8001 a of
        Inl e \<Rightarrow> Inl e
      | Inr level \<Rightarrow>
          let bec' = replace_spaces (bec a);
              s1 = upd_total (op_area a) (pcell a) (add_bec_hectares level bec' (shp_area a)) s;
              s2 = upd_cell_area (pcell a) (add_bec_hectares level bec' (shp_area a)) s1;
              s3 = upd_cell_area (pcell a) (\<lambda>c. c\<lparr>c_target := target a\<rparr>) s2;
              s4 = upd_cell_area (pcell a) (add_hectares (shp_area a)) s3;
              s5 = upd_total (op_area a) (pcell a) (add_hectares (shp_area a)) s4;
              s6 = register_cell (pcell a) s5;
              s7 = register_zero_target (op_area a) (target a) (pcell a) s6
          in Inr (level, s7))"

subsection \<open>Gar8006: calculate\_level\<close>

definition cc_bands_8006 :: "int \<Rightarrow> string \<Rightarrow> string \<Rightarrow> string \<Rightarrow> string \<Rightarrow> string option" where
  \<comment> \<open>the four crown closure bands under each height band, lines 102 to 127\<close>
  "cc_bands_8006 c l56 l46 l36 l26 =
     (if c \<ge> 56 then Some l56
      else if 46 \<le> c \<and> c < 56 then Some l46
      else if 36 \<le> c \<and> c < 46 then Some l36
      else if 26 \<le> c \<and> c < 36 then Some l26
      else None)"

definition level_8006 :: "'p args \<Rightarrow> string option" where
  "level_8006 a =
     (let bec' = replace_spaces (bec a) in
      if gfa a = Some ''Y'' \<and> truthy (height a) \<and> truthy (cc a) then
        (case (height a, cc a) of
           (Some h, Some c) \<Rightarrow>
             let level =
               (if h \<ge> 16 then cc_bands_8006 c ''Mature Cover'' ''Recruit 3'' ''Recruit 6'' ''Recruit 9''
                else if 14 \<le> h \<and> h < 16 then
                  cc_bands_8006 c ''Recruit 1'' ''Recruit 4'' ''Recruit 7'' ''Recruit 10''
                else if 12 \<le> h \<and> h < 14 then
                  cc_bands_8006 c ''Recruit 2'' ''Recruit 5'' ''Recruit 8'' ''Recruit 11''
                else None)
             in (case age a of
                   None \<Rightarrow> level
                 | Some x \<Rightarrow>
                     if (startswith_any bec' [''IDF'', ''ICH''] \<and> x < 25) \<or>
                        (startswith_any bec' [''MS'', ''ESSF''] \<and> x < 35)
                     then Some str_imm_8006 else level)
         | _ \<Rightarrow> None)
      else None)"

text \<open>\<^verbatim>\<open>if level:\<close> on a level that is None or a non-empty label.\<close>

definition accumulate_level :: "string option \<Rightarrow> string \<Rightarrow> 'p \<Rightarrow> real \<Rightarrow> 'p gar \<Rightarrow> 'p gar" where
  "accumulate_level level oa p area s =
     (if level \<noteq> None \<and> level \<noteq> Some [] then
        upd_cell_area p (add_level_hectares level area)
          (upd_total oa p (add_level_hectares level area) s)
      else s)"

definition calculate_level_8006 :: "'p gar \<Rightarrow> 'p args \<Rightarrow> error + string option \<times> 'p gar" where
  "calculate_level_8006 s a =
     (let level = level_8006 a;
          s1 = accumulate_level level (op_area a) (pcell a) (shp_area a) s;
          s2 = upd_total (op_area a) (pcell a) (add_hectares (shp_area a)) s1;
          s3 = upd_cell_area (pcell a) (add_hectares (shp_area a)) s2;
          s4 = register_cell (pcell a) s3;
          s5 = register_zero_target (op_area a) (target a) (pcell a) s4
      in Inr (level, s5))"

subsection \<open>Gar4001: calculate\_level\<close>

definition str_imm_4001 :: string where "str_imm_4001 = ''Early Seral''"
definition str_mule_deer :: string where "str_mule_deer = ''Mule Deer; ICHmw''"
definition str_moose :: string where "str_moose = ''Moose; moderate snow''"
definition str_foraging :: string where "str_foraging = ''Foraging area''"

definition lst_level_4001 :: "string list" where
  "lst_level_4001 = [''Mule Deer SIC'', ''Moose SIC'', ''Forage Areas'']"

definition dict_levels :: "(string \<times> string) list" where
  "dict_levels = [(str_mule_deer, ''Mule Deer SIC''), (str_moose, ''Moose SIC''),
     (str_foraging, ''Forage Areas'')]"

definition age_cc_at_least :: "int option \<Rightarrow> int option \<Rightarrow> int \<Rightarrow> int \<Rightarrow> bool" where
  \<comment> \<open>\<^verbatim>\<open>(age and cc) and (age >= A and cc >= C)\<close>\<close>
  "age_cc_at_least ag c A C =
     (case (ag, c) of (Some x, Some y) \<Rightarrow> x \<noteq> 0 \<and> y \<noteq> 0 \<and> x \<ge> A \<and> y \<ge> C | _ \<Rightarrow> False)"

definition age_below :: "int option \<Rightarrow> int \<Rightarrow> bool" where
  \<comment> \<open>\<^verbatim>\<open>age and age < A\<close>\<close>
  "age_below ag A = (case ag of None \<Rightarrow> False | Some x \<Rightarrow> x \<noteq> 0 \<and> x < A)"

definition age_at_least :: "int option \<Rightarrow> int \<Rightarrow> bool" where
  \<comment> \<open>\<^verbatim>\<open>age and age >= A\<close>\<close>
  "age_at_least ag A = (case ag of None \<Rightarrow> False | Some x \<Rightarrow> x \<noteq> 0 \<and> x \<ge> A)"

text \<open>Lines 97 to 114, inside \<^verbatim>\<open>if gfa == 'Y'\<close>.\<close>

definition level_4001 :: "'p args \<Rightarrow> string option" where
  "level_4001 a =
     (if gfa a = Some ''Y'' then
        (let level =
           (if notes a = str_mule_deer then
              (if age_cc_at_least (age a) (cc a) 101 40 then Some (lst_level_4001 ! 0) else None)
            else if notes a = str_moose then
              (if age_cc_at_least (age a) (cc a) 61 40 then Some (lst_level_4001 ! 1) else None)
            else if notes a = str_foraging then
              (if age_at_least (age a) 81 then Some (lst_level_4001 ! 2) else None)
            else None)
         in if age_below (age a) 21 then Some str_imm_4001 else level)
      else None)"

text \<open>Lines 117 to 131. \<^verbatim>\<open>self.dict_levels\<close> is a plain dictionary: a note that is not one
  of its three keys raises KeyError at line 121.\<close>

definition calculate_level_4001 :: "'p gar \<Rightarrow> 'p args \<Rightarrow> error + string option \<times> 'p gar" where
  "calculate_level_4001 s a =
     (let level = level_4001 a in
      if gfa a = Some ''Y'' then
        (let s1 = accumulate_level level (op_area a) (pcell a) (shp_area a) s in
         case map_of dict_levels (notes a) of
           None \<Rightarrow> Inl KeyError
         | Some tot_level \<Rightarrow>
             let add_total = (\<lambda>c. upd_level (Some tot_level)
                    (\<lambda>l. l\<lparr>l_total_hectares := l_total_hectares l + shp_area a\<rparr>) c);
                 s2 = upd_total (op_area a) (pcell a) add_total s1;
                 s3 = upd_cell_area (pcell a) add_total s2;
                 s4 = upd_cell_area (pcell a) (add_hectares (shp_area a)) s3;
                 s5 = upd_total (op_area a) (pcell a) (add_hectares (shp_area a)) s4;
                 s6 = register_cell (pcell a) s5;
                 s7 = register_zero_target (op_area a) (target a) (pcell a) s6
             in Inr (level, s7))
      else Inr (level, s))"

subsection \<open>Gar4007: calculate\_level\<close>

definition str_imm_4007 :: string where "str_imm_4007 = ''Early Seral''"

definition lst_level_4007 :: "string list" where
  "lst_level_4007 = [''Mature Cover'', ''SIC'']"

definition age_cc_over :: "int option \<Rightarrow> int option \<Rightarrow> int \<Rightarrow> int \<Rightarrow> bool" where
  \<comment> \<open>\<^verbatim>\<open>(age and cc) and (age > A and cc >= C)\<close>\<close>
  "age_cc_over ag c A C =
     (case (ag, c) of (Some x, Some y) \<Rightarrow> x \<noteq> 0 \<and> y \<noteq> 0 \<and> x > A \<and> y \<ge> C | _ \<Rightarrow> False)"

definition age_cc_between :: "int option \<Rightarrow> int option \<Rightarrow> bool" where
  \<comment> \<open>\<^verbatim>\<open>(age and cc) and (60 < age <= 100 and cc >= 40)\<close>\<close>
  "age_cc_between ag c =
     (case (ag, c) of
        (Some x, Some y) \<Rightarrow> x \<noteq> 0 \<and> y \<noteq> 0 \<and> 60 < x \<and> x \<le> 100 \<and> y \<ge> 40
      | _ \<Rightarrow> False)"

definition level_4007 :: "int args \<Rightarrow> string option" where
  "level_4007 a =
     (let fd_or_s = (startswith (spp a) ''FD'' \<or> startswith (spp a) ''S'');
          level =
            (if spp a \<notin> set [''AT'', ''ACT'', ''E'', ''EP'', ''LW'', ''W''] then
               (if pcell a = 5 then
                  (if age_cc_over (age a) (cc a) 60 40 then Some (lst_level_4007 ! 1) else None)
                else if pcell a = 6 then
                  (if age_cc_between (age a) (cc a) then Some (lst_level_4007 ! 1)
                   else if age_cc_over (age a) (cc a) 100 40 \<and> fd_or_s
                     then Some (lst_level_4007 ! 0) else None)
                else if pcell a = 7 then
                  (if age_cc_over (age a) (cc a) 60 40 then Some (lst_level_4007 ! 1) else None)
                else if pcell a = 8 then
                  (if age_cc_between (age a) (cc a) then Some (lst_level_4007 ! 1)
                   else if age_cc_over (age a) (cc a) 100 40 \<and> fd_or_s
                     then Some (lst_level_4007 ! 0) else None)
                else if pcell a = 9 then
                  (if age_cc_over (age a) (cc a) 100 20 then Some (lst_level_4007 ! 0) else None)
                else None)
             else None)
      in if age_below (age a) 21 then Some str_imm_4007 else level)"

definition calculate_level_4007 :: "int gar \<Rightarrow> int args \<Rightarrow> error + string option \<times> int gar" where
  "calculate_level_4007 s a =
     (let level = level_4007 a;
          s1 = accumulate_level level (op_area a) (pcell a) (shp_area a) s;
          s2 = upd_total (op_area a) (pcell a) (add_hectares (shp_area a)) s1;
          s3 = upd_cell_area (pcell a) (add_hectares (shp_area a)) s2;
          s4 = register_cell (pcell a) s3;
          s5 = register_zero_target (op_area a) (target a) (pcell a) s4
      in Inr (level, s5))"

subsection \<open>Gar8005: calculate\_level\<close>

definition str_imm_8005 :: string where "str_imm_8005 = ''Early Seral''"

definition level_8005 :: "'p args \<Rightarrow> string option" where
  "level_8005 a = (if age_below (age a) 33 then Some str_imm_8005 else None)"

definition calculate_level_8005 :: "'p gar \<Rightarrow> 'p args \<Rightarrow> error + string option \<times> 'p gar" where
  "calculate_level_8005 s a =
     (let level = level_8005 a;
          s1 = accumulate_level level (op_area a) (pcell a) (shp_area a) s;
          s2 = upd_total (op_area a) (pcell a) (add_hectares (shp_area a)) s1;
          s3 = upd_cell_area (pcell a) (add_hectares (shp_area a)) s2;
          s4 = register_cell (pcell a) s3;
          s5 = register_zero_target (op_area a) (target a) (pcell a) s4
      in Inr (level, s5))"

subsection \<open>Gar4010: calculate\_level\<close>

definition str_no_harv_4010 :: string where "str_no_harv_4010 = ''No Harvest Zone''"
definition str_caribou :: string where "str_caribou = ''Caribou Management Zone''"
definition str_partial :: string where "str_partial = ''Habitat: Partial Cut''"

definition lst_level_4010 :: "string list" where
  "lst_level_4010 = [''Habitat'', ''Habitat: Older'']"

definition caribou :: "string \<Rightarrow> string" where
  \<comment> \<open>\<^verbatim>\<open>'{0} n'.format(self.str_caribou)\<close>\<close>
  "caribou n = str_caribou @ '' '' @ n"

definition age_in :: "int option \<Rightarrow> int \<Rightarrow> int \<Rightarrow> bool" where
  \<comment> \<open>\<^verbatim>\<open>age and A <= age < B\<close>\<close>
  "age_in ag A B = (case ag of None \<Rightarrow> False | Some x \<Rightarrow> x \<noteq> 0 \<and> A \<le> x \<and> x < B)"

definition level_4010 :: "'p args \<Rightarrow> string option" where
  "level_4010 a =
     (if notes a = caribou ''1'' then Some str_no_harv_4010
      else if gfa a = Some ''Y'' \<and> slp a \<noteq> Some ''80+'' then
        (if notes a \<in> set [caribou ''5'', caribou ''6''] then
           (if age_at_least (age a) 141 then Some (lst_level_4010 ! 0) else None)
         else if notes a = caribou ''7'' then
           (if age_in (age a) 141 251 then Some (lst_level_4010 ! 0)
            else if age_at_least (age a) 251 then Some (lst_level_4010 ! 1)
            else None)
         else if notes a = caribou ''8'' then
           (if age_in (age a) 141 251 then Some (lst_level_4010 ! 0)
            else if age_at_least (age a) 251 then Some (lst_level_4010 ! 1)
            else if age_in (age a) 121 141 then Some str_partial
            else None)
         else None)
      else None)"

text \<open>Lines 108 to 124: the cells of this regulation are keyed by the feature notes.\<close>

definition calculate_level_4010 :: "string gar \<Rightarrow> 'p args \<Rightarrow> error + string option \<times> string gar" where
  "calculate_level_4010 s a =
     (let level = level_4010 a;
          add_mat = (\<lambda>c. c\<lparr>c_mat_hectares := c_mat_hectares c + shp_area a\<rparr>);
          s1 = (case level of
                  None \<Rightarrow> s
                | Some l \<Rightarrow>
                    let t1 = upd_total (op_area a) (notes a)
                               (add_level_hectares level (shp_area a)) s;
                        t2 = upd_cell_area (notes a) (add_level_hectares level (shp_area a)) t1
                    in if l \<in> set lst_level_4010
                       then upd_cell_area (notes a) add_mat
                              (upd_total (op_area a) (notes a) add_mat t2)
                       else t2);
          s2 = upd_total (op_area a) (notes a) (add_hectares (shp_area a)) s1;
          s3 = upd_cell_area (notes a) (add_hectares (shp_area a)) s2;
          s4 = register_cell (notes a) s3;
          s5 = register_zero_target (op_area a) (target a) (notes a) s4
      in Inr (level, s5))"

subsection \<open>Gar8012: calculate\_level\<close>

definition str_suitable :: string where "str_suitable = ''Suitable Cover''"
definition str_no_harv_8012 :: string where "str_no_harv_8012 = ''No Harvest''"

definition level_8012 :: "'p args \<Rightarrow> string option" where
  "level_8012 a =
     (let bec' = replace_spaces (bec a);
          level = (if (case age a of None \<Rightarrow> False
                       | Some x \<Rightarrow> x \<noteq> 0 \<and> startswith_any bec' [''ESSF'', ''ICH''] \<and> x \<ge> 141)
                   then Some ''Suitable Cover'' else None)
      in if startswith bec' ''ESSFwcp'' then Some str_no_harv_8012 else level)"

definition calculate_level_8012 :: "'p gar \<Rightarrow> 'p args \<Rightarrow> error + string option \<times> 'p gar" where
  "calculate_level_8012 s a =
     (let bec' = replace_spaces (bec a);
          level = level_8012 a;
          s1 = (if level \<noteq> Some str_no_harv_8012
                then accumulate_level level (op_area a) (pcell a) (shp_area a) s else s);
          s2 = (if level \<noteq> Some str_no_harv_8012 \<and> startswith_any bec' [''ESSF'', ''ICH'']
                then upd_cell_area (pcell a) (add_hectares (shp_area a))
                       (upd_total (op_area a) (pcell a) (add_hectares (shp_area a)) s1)
                else s1);
          s3 = register_cell (pcell a) s2;
          s4 = register_zero_target (op_area a) (target a) (pcell a) s3
      in Inr (level, s4))"

subsection \<open>calculate\_targets and calculate\_ranks\<close>

text \<open>The loops \<^verbatim>\<open>for pcell in d\<close>, \<^verbatim>\<open>for op_area in self.dict_total_area\<close> and
  \<^verbatim>\<open>for level in cell.level\<close>, each over the keys of a dictionary, updating the entry
  of the key.\<close>

definition for_cells :: "('p \<Rightarrow> CellArea \<Rightarrow> CellArea) \<Rightarrow> ('p \<times> CellArea) list \<Rightarrow> ('p \<times> CellArea) list" where
  "for_cells f d = fold (\<lambda>p m. upd_cell p (f p) m) (map fst d) d"

definition for_op_areas ::
  "('p \<Rightarrow> CellArea \<Rightarrow> CellArea) \<Rightarrow> (string \<times> 'p TotalArea) list \<Rightarrow> (string \<times> 'p TotalArea) list" where
  "for_op_areas f tot =
     fold (\<lambda>oa m. dd_upd new_TotalArea m oa (\<lambda>t. t\<lparr>t_pcell := for_cells f (t_pcell t)\<rparr>))
       (map fst tot) tot"

definition for_levels :: "(string option \<Rightarrow> Level \<Rightarrow> Level) \<Rightarrow> CellArea \<Rightarrow> CellArea" where
  "for_levels f c = fold (\<lambda>level c'. upd_level level (f level) c') (map fst (c_level c)) c"

definition both_hierarchies :: "('p \<Rightarrow> CellArea \<Rightarrow> CellArea) \<Rightarrow> 'p gar \<Rightarrow> 'p gar" where
  "both_hierarchies f s =
     s\<lparr>dict_total_area := for_op_areas f (dict_total_area s),
       dict_cell_area := for_cells f (dict_cell_area s)\<rparr>"

text \<open>\<^verbatim>\<open>calculate_ranks\<close> of Gar8001 and Gar8006: the rank pass on the cells of every
  operating area, then on the cell-alone dictionary.\<close>

definition calculate_ranks_with ::
  "(('p \<times> CellArea) list \<Rightarrow> error + ('p \<times> CellArea) list) \<Rightarrow> 'p gar \<Rightarrow> error + 'p gar" where
  "calculate_ranks_with cell_ranks s =
     (case for_each
             (\<lambda>oa m. case cell_ranks (t_pcell (dd_get new_TotalArea m oa)) of
                        Inl e \<Rightarrow> Inl e
                      | Inr d \<Rightarrow> Inr (dd_upd new_TotalArea m oa (\<lambda>t. t\<lparr>t_pcell := d\<rparr>)))
             (map fst (dict_total_area s)) (dict_total_area s)
      of Inl e \<Rightarrow> Inl e
       | Inr tot \<Rightarrow>
           (case cell_ranks (dict_cell_area s) of
              Inl e \<Rightarrow> Inl e
            | Inr d \<Rightarrow> Inr (s\<lparr>ranks := True, dict_total_area := tot, dict_cell_area := d\<rparr>)))"

text \<open>Gar8001, lines 305 to 309. The division raises ZeroDivisionError on a cell of zero
  hectares (a cell the read creates has zero hectares too), then the product raises
  TypeError on a target that is None.\<close>

definition op_area_target_8001 :: "'p gar \<Rightarrow> string \<Rightarrow> 'p \<Rightarrow> error + real" where
  "op_area_target_8001 s oa p =
     (let cell = get_cell (dict_cell_area s) p in
      if c_hectares cell = 0 then Inl ZeroDivisionError
      else (case c_target cell of
              None \<Rightarrow> Inl TypeError
            | Some t \<Rightarrow> Inr (t * (c_hectares (get_total s oa p) / c_hectares cell))))"

definition set_targets_8001 :: "'p gar \<Rightarrow> error + 'p gar" where
  "set_targets_8001 s =
     for_each
       (\<lambda>oa s1. for_each
          (\<lambda>p s2. case op_area_target_8001 s2 oa p of
                     Inl e \<Rightarrow> Inl e
                   | Inr t \<Rightarrow> Inr (upd_total oa p (\<lambda>c. c\<lparr>c_target := Some t\<rparr>) s2))
          (map fst (t_pcell (dd_get new_TotalArea (dict_total_area s1) oa))) s1)
       (map fst (dict_total_area s)) s"

definition calculate_targets_8001 :: "'p gar \<Rightarrow> error + 'p gar" where
  "calculate_targets_8001 s =
     (case set_targets_8001 s of
        Inl e \<Rightarrow> Inl e
      | Inr s' \<Rightarrow> calculate_ranks_with calculate_cell_ranks_8001 s')"

text \<open>Gar8006, lines 159 to 167.\<close>

definition target_cell_8006 :: "'p \<Rightarrow> CellArea \<Rightarrow> CellArea" where
  "target_cell_8006 p c = (let cell_area = c_hectares c in c\<lparr>c_target := Some (cell_area * 0.33)\<rparr>)"

definition set_targets_8006 :: "'p gar \<Rightarrow> 'p gar" where
  "set_targets_8006 s = both_hierarchies target_cell_8006 s"

definition calculate_targets_8006 :: "'p gar \<Rightarrow> error + 'p gar" where
  "calculate_targets_8006 s = calculate_ranks_with calculate_cell_ranks_8006 (set_targets_8006 s)"

text \<open>Gar8012, lines 113 to 120.\<close>

definition target_cell_8012 :: "'p \<Rightarrow> CellArea \<Rightarrow> CellArea" where
  "target_cell_8012 p c = (let cell_area = c_hectares c in c\<lparr>c_target := Some (cell_area * 0.7)\<rparr>)"

definition calculate_targets_8012 :: "'p gar \<Rightarrow> 'p gar" where
  "calculate_targets_8012 s = both_hierarchies target_cell_8012 s"

text \<open>Gar4001, lines 138 to 161.\<close>

definition target_level_4001 :: "string option \<Rightarrow> Level \<Rightarrow> Level" where
  "target_level_4001 level l =
     (if level = Some (lst_level_4001 ! 0) then l\<lparr>l_target := l_total_hectares l * 0.4\<rparr>
      else if level = Some (lst_level_4001 ! 1) then l\<lparr>l_target := l_total_hectares l * 0.2\<rparr>
      else if level = Some (lst_level_4001 ! 2) then l\<lparr>l_target := l_total_hectares l * 0.1\<rparr>
      else l)"

definition target_cell_4001 :: "'p \<Rightarrow> CellArea \<Rightarrow> CellArea" where
  "target_cell_4001 p c = for_levels target_level_4001 c"

definition calculate_targets_4001 :: "'p gar \<Rightarrow> 'p gar" where
  "calculate_targets_4001 s = both_hierarchies target_cell_4001 s"

text \<open>Gar4007, lines 142 to 186.\<close>

definition target_level_4007 :: "int \<Rightarrow> real \<Rightarrow> string option \<Rightarrow> Level \<Rightarrow> Level" where
  "target_level_4007 p cell_area level l =
     (if p = 5 then
        (if level = Some (lst_level_4007 ! 1) then l\<lparr>l_target := cell_area * 0.3\<rparr> else l)
      else if p = 6 then
        (if level \<in> Some ` set lst_level_4007 then l\<lparr>l_target := cell_area * 0.1\<rparr> else l)
      else if p = 7 then
        (if level = Some (lst_level_4007 ! 1) then l\<lparr>l_target := cell_area * 0.2\<rparr> else l)
      else if p = 8 then
        (if level = Some (lst_level_4007 ! 0) then l\<lparr>l_target := cell_area * 0.2\<rparr>
         else if level = Some (lst_level_4007 ! 1) then l\<lparr>l_target := cell_area * 0.1\<rparr>
         else l)
      else if p = 9 then
        (if level = Some (lst_level_4007 ! 0) then l\<lparr>l_target := cell_area * 0.1\<rparr> else l)
      else l)"

definition target_cell_4007 :: "int \<Rightarrow> CellArea \<Rightarrow> CellArea" where
  "target_cell_4007 p c = (let cell_area = c_hectares c in for_levels (target_level_4007 p cell_area) c)"

definition calculate_targets_4007 :: "int gar \<Rightarrow> int gar" where
  "calculate_targets_4007 s = both_hierarchies target_cell_4007 s"

text \<open>Gar4010, lines 133 to 156.\<close>

definition target_cell_4010 :: "string \<Rightarrow> CellArea \<Rightarrow> CellArea" where
  "target_cell_4010 p c =
     (let cell_area = c_hectares c;
          c1 = (if p \<in> set [caribou ''5'', caribou ''6'']
                  then c\<lparr>c_target := Some (cell_area * 0.7)\<rparr>
                else if p = caribou ''7'' then c\<lparr>c_target := Some (cell_area * 0.4)\<rparr>
                else if p = caribou ''8'' then c\<lparr>c_target := Some (cell_area * 0.3)\<rparr>
                else c)
      in for_levels (\<lambda>level l. if level = Some (lst_level_4010 ! 1)
                                 then l\<lparr>l_target := cell_area * 0.1\<rparr> else l) c1)"

definition calculate_targets_4010 :: "string gar \<Rightarrow> string gar" where
  "calculate_targets_4010 s = both_hierarchies target_cell_4010 s"

text \<open>Gar8005: \<^verbatim>\<open>calculate_targets\<close> is \<^verbatim>\<open>pass\<close>.\<close>

definition calculate_targets_8005 :: "'p gar \<Rightarrow> 'p gar" where
  "calculate_targets_8005 s = s"

subsection \<open>Observations on the state\<close>

text \<open>The total-area denominator of a planning cell, in the cell-alone hierarchy and in the
  hierarchy of an operating area.\<close>

definition cell_hectares :: "'p gar \<Rightarrow> 'p \<Rightarrow> real" where
  "cell_hectares s p = c_hectares (get_cell (dict_cell_area s) p)"

definition op_area_hectares :: "'p gar \<Rightarrow> string \<Rightarrow> 'p \<Rightarrow> real" where
  "op_area_hectares s oa p = c_hectares (get_total s oa p)"

text \<open>A Python dictionary holds each key once.\<close>

definition wf_cell :: "CellArea \<Rightarrow> bool" where
  "wf_cell c = (distinct (map fst (c_level c)) \<and>
     list_all (\<lambda>kv. distinct (map fst (l_bec (snd kv)))) (c_level c))"

definition wf_cells :: "('p \<times> CellArea) list \<Rightarrow> bool" where
  "wf_cells d = (distinct (map fst d) \<and> list_all (\<lambda>kv. wf_cell (snd kv)) d)"

definition wf_gar :: "'p gar \<Rightarrow> bool" where
  "wf_gar s = (distinct (map fst (dict_total_area s)) \<and>
     list_all (\<lambda>kv. wf_cells (t_pcell (snd kv))) (dict_total_area s) \<and>
     wf_cells (dict_cell_area s))"

text \<open>A call has counted \<open>x\<close> hectares into the total area of cell \<open>p\<close>, in both
  hierarchies.\<close>

definition counted :: "'p gar \<Rightarrow> 'p gar \<Rightarrow> string \<Rightarrow> 'p \<Rightarrow> real \<Rightarrow> bool" where
  "counted s s' oa p x =
     (cell_hectares s' p = cell_hectares s p + x \<and>
      op_area_hectares s' oa p = op_area_hectares s oa p + x)"

text \<open>The planning cells an operating area holds, and membership of a cell in the hierarchy
  of an operating area.\<close>

definition op_area_cells :: "'p gar \<Rightarrow> string \<Rightarrow> 'p list" where
  "op_area_cells s oa = map fst (t_pcell (dd_get new_TotalArea (dict_total_area s) oa))"

definition in_op_area :: "'p gar \<Rightarrow> string \<Rightarrow> 'p \<Rightarrow> bool" where
  "in_op_area s oa p = (oa \<in> set (map fst (dict_total_area s)) \<and> p \<in> set (op_area_cells s oa))"

text \<open>What the target loop of Gar8001 reads and never writes: the cell-alone dictionary and
  the hectares of every cell of every operating area; and no cell leaves an operating
  area.\<close>

definition same_areas :: "'p gar \<Rightarrow> 'p gar \<Rightarrow> bool" where
  "same_areas s s' =
     (dict_cell_area s' = dict_cell_area s \<and>
      (\<forall>oa p. c_hectares (get_total s' oa p) = c_hectares (get_total s oa p)) \<and>
      (\<forall>oa. set (op_area_cells s oa) \<subseteq> set (op_area_cells s' oa)))"

text \<open>The cell of operating area \<open>oa\<close> holds the target Gar8001 computes for it from the
  state \<open>s\<close>.\<close>

definition targeted_8001 :: "'p gar \<Rightarrow> string \<Rightarrow> 'p \<Rightarrow> 'p gar \<Rightarrow> bool" where
  "targeted_8001 s oa p s' =
     (\<exists>t. op_area_target_8001 s oa p = Inr t \<and> c_target (get_total s' oa p) = Some t)"

subsection \<open>The rank rule as the specification words it\<close>

text \<open>Specification, 4.4 step 5 and the note on freezing in section 9: an entry is No-Harvest
  when the running total with its hectares is at most the target, Conditional-Harvest when it
  is the entry that takes the running total over the target, and without a rank once the cell
  has reached Conditional-Harvest. Here \<open>before\<close> is the sum of the hectares counted for the
  entries that precede it in the walk.\<close>

definition spec_rank :: "real \<Rightarrow> real \<Rightarrow> real \<Rightarrow> string option" where
  "spec_rank t before a =
     (if before + a \<le> t then Some str_nh
      else if before \<le> t then Some str_ch
      else None)"

text \<open>The running total and the local rank of the walk, against the sum \<open>P\<close> of the
  hectares counted so far: the running total is that sum until the rank is CH, and the rank is
  CH exactly when the sum has passed the target.\<close>

definition tracks :: "real \<Rightarrow> real \<Rightarrow> real \<Rightarrow> string \<Rightarrow> bool" where
  "tracks t P running_total rank =
     (if rank = str_ch then P > t else running_total = P \<and> P \<le> t)"

definition level_area :: "CellArea \<Rightarrow> string \<Rightarrow> real" where
  "level_area c l = l_hectares (get_level c (Some l))"

definition level_rank :: "CellArea \<Rightarrow> string \<Rightarrow> string option" where
  "level_rank c l = l_rank (get_level c (Some l))"

definition bucket_area :: "CellArea \<Rightarrow> string \<times> string \<Rightarrow> real" where
  "bucket_area c lb = b_hectares (get_bec c (Some (fst lb)) (snd lb))"

definition bucket_rank :: "CellArea \<Rightarrow> string \<times> string \<Rightarrow> string option" where
  "bucket_rank c lb = b_rank (get_bec c (Some (fst lb)) (snd lb))"

text \<open>The hectares Gar8001 counts for a bucket of \<open>h\<close> hectares: the cap of lines 337 to
  340 on the NTHLB SIC level.\<close>

definition counted_area :: "real \<Rightarrow> string \<times> string \<Rightarrow> real \<Rightarrow> real" where
  "counted_area t lb h =
     (if fst lb = str_nthlb_sic \<and> \<not> startswith (snd lb) ''IDFmw'' \<and> h \<ge> t * 0.5
      then t * 0.5 else h)"

definition bec_keys :: "CellArea \<Rightarrow> string option \<Rightarrow> string list" where
  "bec_keys c k = map fst (l_bec (get_level c k))"

text \<open>The buckets Gar8001 ranks in a cell, in the order of the walk: the levels of
  \<open>ls\<close> but Immature, and within a level the keys of its bec dictionary.\<close>

definition level_buckets :: "CellArea \<Rightarrow> string \<Rightarrow> (string \<times> string) list" where
  "level_buckets c l =
     (if l = str_imm_8001 then [] else map (\<lambda>b. (l, b)) (bec_keys c (Some l)))"

definition buckets :: "CellArea \<Rightarrow> string list \<Rightarrow> (string \<times> string) list" where
  "buckets c ls = concat (map (level_buckets c) ls)"


definition bucket_counted :: "real \<Rightarrow> CellArea \<Rightarrow> string \<times> string \<Rightarrow> real" where
  "bucket_counted t c lb = counted_area t lb (bucket_area c lb)"

text \<open>The levels \<^verbatim>\<open>calculate_cell_ranks\<close> of Gar8001 walks:
  \<^verbatim>\<open>self.lst_level + [self.str_imm]\<close>.\<close>

definition walked_levels_8001 :: "string list" where
  "walked_levels_8001 = lst_level_8001 @ [str_imm_8001]"

text \<open>A cell as the accumulation leaves it for the rank pass: no hectares below zero, no
  rank assigned yet, and each bec once in the dictionary of its level.\<close>

definition ready_8006 :: "CellArea \<Rightarrow> bool" where
  "ready_8006 c = list_all (\<lambda>l. 0 \<le> level_area c l \<and> level_rank c l = None) lst_level_8006"

definition ready_8001 :: "CellArea \<Rightarrow> bool" where
  "ready_8001 c =
     (list_all (\<lambda>l. distinct (bec_keys c (Some l))) walked_levels_8001 \<and>
      list_all (\<lambda>lb. 0 \<le> bucket_area c lb \<and> bucket_rank c lb = None)
        (buckets c walked_levels_8001))"

section \<open>Properties\<close>

subsection \<open>Dictionaries\<close>

lemma dd_get_dd_upd:
  "dd_get d (dd_upd d m k f) k' = (if k' = k then f (dd_get d m k) else dd_get d m k')"
  by (induction m) auto

lemma keys_dd_upd:
  "map fst (dd_upd d m k f) = (if k \<in> fst ` set m then map fst m else map fst m @ [k])"
  by (induction m) force+

lemma get_level_upd_level:
  "get_level (upd_level l f c) l' = (if l' = l then f (get_level c l) else get_level c l')"
  by (simp add: get_level_def upd_level_def dd_get_dd_upd)

lemma get_bec_upd_bec:
  "get_bec (upd_bec l b f c) l' b' =
     (if l' = l \<and> b' = b then f (get_bec c l b) else get_bec c l' b')"
  by (simp add: get_bec_def upd_bec_def get_level_upd_level dd_get_dd_upd)

lemma get_bec_upd_level:
  "l_bec (f (get_level c l)) = l_bec (get_level c l) \<Longrightarrow>
   get_bec (upd_level l f c) l' b = get_bec c l' b"
  by (simp add: get_bec_def get_level_upd_level)

lemma get_level_upd_bec:
  "get_level (upd_bec l b f c) l' =
     (if l' = l then (get_level c l)\<lparr>l_bec := dd_upd new_BEC (l_bec (get_level c l)) b f\<rparr>
      else get_level c l')"
  by (simp add: upd_bec_def get_level_upd_level)

lemma upd_level_scalars:
  "c_hectares (upd_level l f c) = c_hectares c"
  "c_target (upd_level l f c) = c_target c"
  "c_nthlb_hectares (upd_level l f c) = c_nthlb_hectares c"
  "c_sic_hectares (upd_level l f c) = c_sic_hectares c"
  "c_ch_hectares (upd_level l f c) = c_ch_hectares c"
  "c_nh_hectares (upd_level l f c) = c_nh_hectares c"
  "c_imm_hectares (upd_level l f c) = c_imm_hectares c"
  "c_mat_hectares (upd_level l f c) = c_mat_hectares c"
  by (simp_all add: upd_level_def)

lemma get_level_scalars:
  "get_level (c\<lparr>c_hectares := x\<rparr>) l = get_level c l"
  "get_level (c\<lparr>c_target := y\<rparr>) l = get_level c l"
  "get_level (c\<lparr>c_nthlb_hectares := x\<rparr>) l = get_level c l"
  "get_level (c\<lparr>c_sic_hectares := x\<rparr>) l = get_level c l"
  "get_level (c\<lparr>c_ch_hectares := x\<rparr>) l = get_level c l"
  "get_level (c\<lparr>c_nh_hectares := x\<rparr>) l = get_level c l"
  "get_level (c\<lparr>c_imm_hectares := x\<rparr>) l = get_level c l"
  "get_level (c\<lparr>c_mat_hectares := x\<rparr>) l = get_level c l"
  by (simp_all add: get_level_def)

lemma get_bec_scalars:
  "get_bec (c\<lparr>c_hectares := x\<rparr>) l b = get_bec c l b"
  "get_bec (c\<lparr>c_target := y\<rparr>) l b = get_bec c l b"
  "get_bec (c\<lparr>c_nthlb_hectares := x\<rparr>) l b = get_bec c l b"
  "get_bec (c\<lparr>c_sic_hectares := x\<rparr>) l b = get_bec c l b"
  "get_bec (c\<lparr>c_ch_hectares := x\<rparr>) l b = get_bec c l b"
  "get_bec (c\<lparr>c_nh_hectares := x\<rparr>) l b = get_bec c l b"
  "get_bec (c\<lparr>c_imm_hectares := x\<rparr>) l b = get_bec c l b"
  "get_bec (c\<lparr>c_mat_hectares := x\<rparr>) l b = get_bec c l b"
  by (simp_all add: get_bec_def get_level_scalars)

subsection \<open>Prefixes of bec labels\<close>

lemma startswith_append: "startswith s p \<longleftrightarrow> (\<exists>r. s = p @ r)"
  unfolding startswith_def
  by (metis append_eq_conv_conj append_take_drop_id)

lemma moderate_not_shallow:
  assumes "startswith_any b [''IDFmw'', ''IDFdk'', ''IDFdm'', ''ICHdw'', ''MS'']"
  shows "\<not> startswith_any b [''BG'', ''PP'', ''IDFxh'']"
  using assms by (auto simp: startswith_any_def startswith_append)

lemma moderate_cases:
  assumes "startswith_any b [''IDFmw'', ''IDFdk'', ''IDFdm'', ''ICHdw'', ''MS'']"
  shows "(startswith b ''IDFmw'' \<and> \<not> startswith_any b [''IDFdk'', ''IDFdm'', ''ICHdw'', ''MS''])
       \<or> (\<not> startswith b ''IDFmw'' \<and> startswith_any b [''IDFdk'', ''IDFdm'', ''ICHdw'', ''MS''])"
  using assms by (auto simp: startswith_any_def startswith_append)

subsection \<open>Classification\<close>

text \<open>
  Claim C7, as the specification states it: a record whose age is null, whose diameter is at
  least 40 cm and whose gross-forested indicator is set is classified as the terminal category
  SIC. Gar8001 does not do that: the diameter test of lines 142 and 196 also asks for
  \<^verbatim>\<open>age is not None and age > 0\<close>. The record below meets every other gate of the
  moderate snowpack rule and stays unclassified.
\<close>

theorem diameter_override_null_age_counterexample:
  "map_sum id fst (calculate_level_8001 new_gar
     \<lparr>bec = ''IDF dk 1'', age = None, spp = ''FD'', cc = Some 40, slp = None,
      thlb = Some 1, diam = Some 45, pct = Some 80, gfa = Some ''Y'', notes = '''',
      op_area = ''A'', pcell = ''c1'', shp_area = 2, target = Some 100, height = None\<rparr>)
   = Inr None"
  by (simp add: calculate_level_8001_def level_8001_def zone_level_8001_def
      replace_spaces_def startswith_any_def startswith_def is_sic_def recruit_under_40_def Let_def)

text \<open>
  Claim C7, amended: in the moderate snowpack rules of Gar8001 (bec IDFmw, IDFdk, IDFdm, ICHdw
  or MS, fir leading, slope not 80+, thlb above zero, crown closure at least 36), a record
  whose diameter is at least 40 cm is classified SIC for every known age from 20 years on,
  whatever that age is, and the gross-forested indicator plays no part; a record whose age is
  null is not classified by its diameter and stays unclassified.
\<close>

theorem diameter_override_known_age:
  assumes z: "startswith_any (replace_spaces (bec a)) [''IDFmw'', ''IDFdk'', ''IDFdm'', ''ICHdw'', ''MS'']"
    and sp: "startswith (spp a) ''F''" and sl: "slp a \<noteq> Some ''80+''"
    and th: "thlb a = Some v" "v > 0" and c: "cc a = Some c" "c \<ge> 36"
    and d: "diam a = Some d" "d \<ge> 40"
  shows "(\<forall>x. age a = Some x \<and> 20 \<le> x \<longrightarrow> level_8001 a = Inr (Some str_sic)) \<and>
         (age a = None \<longrightarrow> level_8001 a = Inr None)"
proof -
  note ns = moderate_not_shallow[OF z]
  from moderate_cases[OF z] show ?thesis
  proof
    assume "startswith (replace_spaces (bec a)) ''IDFmw'' \<and>
      \<not> startswith_any (replace_spaces (bec a)) [''IDFdk'', ''IDFdm'', ''ICHdw'', ''MS'']"
    then show ?thesis
      using z ns sp sl th c d
      by (auto simp add: level_8001_def zone_level_8001_def is_sic_def recruit_under_40_def
          Let_def str_sic_def)
  next
    assume "\<not> startswith (replace_spaces (bec a)) ''IDFmw'' \<and>
      startswith_any (replace_spaces (bec a)) [''IDFdk'', ''IDFdm'', ''ICHdw'', ''MS'']"
    then show ?thesis
      using z ns sp sl th c d
      by (auto simp add: level_8001_def zone_level_8001_def is_sic_def recruit_under_40_def
          Let_def str_sic_def)
  qed
qed

theorem diameter_override_known_age_witness:
  "level_8001 (\<lparr>bec = ''IDF dk 1'', age = Some 30, spp = ''FD'', cc = Some 40, slp = None,
      thlb = Some 1, diam = Some 45, pct = Some 80, gfa = None, notes = '''',
      op_area = ''A'', pcell = ''c1'', shp_area = 2, target = Some 100, height = None\<rparr> :: string args)
   = Inr (Some ''SIC'')"
  using diameter_override_known_age [of "\<lparr>bec = ''IDF dk 1'', age = Some 30, spp = ''FD'',
      cc = Some 40, slp = None, thlb = Some 1, diam = Some 45, pct = Some 80, gfa = None,
      notes = '''', op_area = ''A'', pcell = ''c1'', shp_area = 2, target = Some 100,
      height = None\<rparr> :: string args" 1 40 45]
  by (simp add: replace_spaces_def startswith_any_def startswith_def str_sic_def)

text \<open>
  Claim C9: the label \<^verbatim>\<open>calculate_level\<close> returns (or the exception it raises) is a
  function of the arguments of the call alone: from any two states of the aggregator, the
  same arguments give the same label. So a second call with identical arguments, made on the
  state the first call has mutated, returns the identical label. This holds in every
  regulation module.
\<close>

theorem classification_deterministic:
  "map_sum id fst (calculate_level_8001 s1 a) = map_sum id fst (calculate_level_8001 s2 a) \<and>
   map_sum id fst (calculate_level_4010 t1 b) = map_sum id fst (calculate_level_4010 t2 b) \<and>
   map_sum id fst (calculate_level_8006 s1 a) = map_sum id fst (calculate_level_8006 s2 a) \<and>
   map_sum id fst (calculate_level_4001 s1 a) = map_sum id fst (calculate_level_4001 s2 a) \<and>
   map_sum id fst (calculate_level_4007 u1 c) = map_sum id fst (calculate_level_4007 u2 c) \<and>
   map_sum id fst (calculate_level_8005 s1 a) = map_sum id fst (calculate_level_8005 s2 a) \<and>
   map_sum id fst (calculate_level_8012 s1 a) = map_sum id fst (calculate_level_8012 s2 a)"
  by (simp add: calculate_level_8001_def calculate_level_4010_def calculate_level_8006_def
      calculate_level_4001_def calculate_level_4007_def calculate_level_8005_def
      calculate_level_8012_def Let_def split: sum.splits option.splits)

subsection \<open>Accumulation\<close>

text \<open>
  Claim C5: the accumulation step never fails, whatever the operating area, the planning cell,
  the category label and the subtype key are. The bucket accessors are defaultdicts and do
  create what is missing, but Gar4001 reads the level of the \<open>total\<close> denominator from the
  plain dictionary \<^verbatim>\<open>self.dict_levels\<close> (line 121): a record of the crown forest land
  base whose feature note is not one of the three habitat labels raises KeyError, after the
  classifier, which handles such a note, has already labelled it Early Seral.
\<close>

theorem gar4001_unknown_note_raises:
  "calculate_level_4001 (new_gar :: string gar)
     \<lparr>bec = ''ICH mw 2'', age = Some 10, spp = ''FD'', cc = Some 40, slp = None,
      thlb = Some 1, diam = Some 12, pct = Some 80, gfa = Some ''Y'', notes = '''',
      op_area = ''A'', pcell = ''c1'', shp_area = 2, target = None, height = None\<rparr>
   = Inl KeyError"
  by (simp add: calculate_level_4001_def dict_levels_def str_mule_deer_def str_moose_def
      str_foraging_def Let_def)

subsection \<open>The total area of a cell\<close>

lemma get_total_upd_total:
  "get_total (upd_total oa p f s) oa' p' =
     (if oa' = oa \<and> p' = p then f (get_total s oa p) else get_total s oa' p')"
  by (simp add: get_total_def upd_total_def get_cell_def upd_cell_def dd_get_dd_upd)

lemma get_cell_upd_cell:
  "get_cell (upd_cell p f m) p' = (if p' = p then f (get_cell m p) else get_cell m p')"
  by (simp add: get_cell_def upd_cell_def dd_get_dd_upd)

lemma hectares_upd_total:
  "op_area_hectares (upd_total oa p f s) oa' p' =
     (if oa' = oa \<and> p' = p then c_hectares (f (get_total s oa p)) else op_area_hectares s oa' p')"
  "cell_hectares (upd_total oa p f s) p' = cell_hectares s p'"
  by (simp_all add: op_area_hectares_def cell_hectares_def get_total_upd_total)
     (simp add: upd_total_def)

lemma hectares_upd_cell_area:
  "cell_hectares (upd_cell_area p f s) p' =
     (if p' = p then c_hectares (f (get_cell (dict_cell_area s) p)) else cell_hectares s p')"
  "op_area_hectares (upd_cell_area p f s) oa' p' = op_area_hectares s oa' p'"
  by (simp_all add: op_area_hectares_def cell_hectares_def upd_cell_area_def get_cell_upd_cell
      get_total_def)

lemma hectares_register:
  "cell_hectares (register_cell p s) p' = cell_hectares s p'"
  "op_area_hectares (register_cell p s) oa' p' = op_area_hectares s oa' p'"
  "cell_hectares (register_zero_target oa t p s) p' = cell_hectares s p'"
  "op_area_hectares (register_zero_target oa t p s) oa' p' = op_area_hectares s oa' p'"
  by (simp_all add: op_area_hectares_def cell_hectares_def register_cell_def
      register_zero_target_def get_total_def)

lemma c_hectares_adds:
  "c_hectares (add_hectares x c) = c_hectares c + x"
  "c_hectares (add_level_hectares l x c) = c_hectares c"
  "c_hectares (add_bec_hectares l b x c) = c_hectares c"
  "c_hectares (upd_level l g c) = c_hectares c"
  by (simp_all add: add_hectares_def add_level_hectares_def add_bec_hectares_def upd_bec_def
      upd_level_def)

lemma hectares_accumulate_level:
  "cell_hectares (accumulate_level l oa p x s) p' = cell_hectares s p'"
  "op_area_hectares (accumulate_level l oa p x s) oa' p' = op_area_hectares s oa' p'"
  by (simp_all add: accumulate_level_def hectares_upd_total hectares_upd_cell_area c_hectares_adds
      cell_hectares_def[symmetric] op_area_hectares_def[symmetric])

lemmas hectares_simps = hectares_upd_total hectares_upd_cell_area hectares_register
  c_hectares_adds hectares_accumulate_level

lemma total_area_8001:
  assumes "calculate_level_8001 s a = Inr (l, s')"
  shows "counted s s' (op_area a) (pcell a) (shp_area a)"
  using assms
  by (auto simp: calculate_level_8001_def Let_def counted_def hectares_simps
      cell_hectares_def[symmetric] op_area_hectares_def[symmetric] split: sum.splits)

lemma total_area_8006:
  "\<exists>l s'. calculate_level_8006 s a = Inr (l, s') \<and>
     counted s s' (op_area a) (pcell a) (shp_area a)"
  by (simp add: calculate_level_8006_def Let_def counted_def hectares_simps
      cell_hectares_def[symmetric] op_area_hectares_def[symmetric])

lemma total_area_4007:
  "\<exists>l s'. calculate_level_4007 s a = Inr (l, s') \<and>
     counted s s' (op_area a) (pcell a) (shp_area a)"
  by (simp add: calculate_level_4007_def Let_def counted_def hectares_simps
      cell_hectares_def[symmetric] op_area_hectares_def[symmetric])

lemma total_area_8005:
  "\<exists>l s'. calculate_level_8005 s a = Inr (l, s') \<and>
     counted s s' (op_area a) (pcell a) (shp_area a)"
  by (simp add: calculate_level_8005_def Let_def counted_def hectares_simps
      cell_hectares_def[symmetric] op_area_hectares_def[symmetric])

lemma total_area_4010:
  "\<exists>l s'. calculate_level_4010 s a = Inr (l, s') \<and>
     counted s s' (op_area a) (notes a) (shp_area a)"
  by (simp add: calculate_level_4010_def Let_def counted_def hectares_simps
      cell_hectares_def[symmetric] op_area_hectares_def[symmetric] split: option.splits)

lemma total_area_4001:
  "(gfa a = Some ''Y'' \<and> notes a \<in> {str_mule_deer, str_moose, str_foraging} \<longrightarrow>
      (\<exists>l s'. calculate_level_4001 s a = Inr (l, s') \<and>
         counted s s' (op_area a) (pcell a) (shp_area a))) \<and>
   (gfa a \<noteq> Some ''Y'' \<longrightarrow> calculate_level_4001 s a = Inr (None, s))"
  by (auto simp: calculate_level_4001_def Let_def counted_def hectares_simps dict_levels_def level_4001_def
      cell_hectares_def[symmetric] op_area_hectares_def[symmetric])

lemma total_area_8012:
  "\<exists>l s'. calculate_level_8012 s a = Inr (l, s') \<and>
     (if l \<noteq> Some str_no_harv_8012 \<and> startswith_any (replace_spaces (bec a)) [''ESSF'', ''ICH'']
      then counted s s' (op_area a) (pcell a) (shp_area a)
      else counted s s' (op_area a) (pcell a) 0)"
  by (simp add: calculate_level_8012_def Let_def counted_def hectares_simps
      cell_hectares_def[symmetric] op_area_hectares_def[symmetric])

lemma zone_level_8001_total:
  assumes "cc a \<noteq> None" "age a \<noteq> None" "pct a \<noteq> None"
  shows "\<exists>l. zone_level_8001 b t a = Inr l"
proof -
  from assms obtain c x q where "cc a = Some c" "age a = Some x" "pct a = Some q" by auto
  then show ?thesis by (simp add: zone_level_8001_def split: option.split)
qed

lemma calculate_level_8001_total:
  assumes "cc a \<noteq> None" "age a \<noteq> None" "pct a \<noteq> None"
  shows "\<exists>l s'. calculate_level_8001 s a = Inr (l, s')"
proof -
  obtain l where "zone_level_8001 (replace_spaces (bec a))
        (case thlb a of None \<Rightarrow> 0 | Some v \<Rightarrow> if v \<noteq> 0 then v else 0) a = Inr l"
    using zone_level_8001_total[OF assms] by blast
  then show ?thesis by (simp add: calculate_level_8001_def level_8001_def Let_def)
qed

text \<open>
  Claim C6, as the specification states it: every record \<^verbatim>\<open>calculate_level\<close> processes
  adds its area to the total hectares of its cell, in both hierarchies, unconditionally.
  Gar4001 counts only inside \<^verbatim>\<open>if gfa == 'Y'\<close>, and Gar8012 only under
  \<^verbatim>\<open>level != self.str_no_harv and bec.startswith(('ESSF', 'ICH'))\<close>: each of the two
  records below is processed, returns, and leaves the total area of its cell at zero.
\<close>

theorem total_area_unconditional_counterexample:
  "map_sum id (\<lambda>ls. (fst ls, cell_hectares (snd ls) ''c1'', op_area_hectares (snd ls) ''A'' ''c1''))
     (calculate_level_4001 new_gar
       \<lparr>bec = ''ICH mw 2'', age = Some 150, spp = ''FD'', cc = Some 40, slp = None,
        thlb = Some 1, diam = Some 12, pct = Some 80, gfa = None, notes = ''Mule Deer; ICHmw'',
        op_area = ''A'', pcell = ''c1'', shp_area = 2, target = None, height = None\<rparr>)
     = Inr (None, 0, 0) \<and>
   map_sum id (\<lambda>ls. (fst ls, cell_hectares (snd ls) ''c1'', op_area_hectares (snd ls) ''A'' ''c1''))
     (calculate_level_8012 new_gar
       \<lparr>bec = ''IDF dk 1'', age = Some 150, spp = ''FD'', cc = Some 40, slp = None,
        thlb = Some 1, diam = Some 12, pct = Some 80, gfa = Some ''Y'', notes = '''',
        op_area = ''A'', pcell = ''c1'', shp_area = 2, target = None, height = None\<rparr>)
     = Inr (None, 0, 0)"
  by (simp add: calculate_level_4001_def level_4001_def calculate_level_8012_def level_8012_def
      Let_def new_gar_def cell_hectares_def op_area_hectares_def get_total_def get_cell_def
      new_CellArea_def new_TotalArea_def replace_spaces_def startswith_any_def startswith_def
      register_cell_def register_zero_target_def accumulate_level_def)

text \<open>
  Claim C6, amended: in Gar8001, Gar8006, Gar4007, Gar8005 and Gar4010 every record that
  \<^verbatim>\<open>calculate_level\<close> processes adds its area to the total hectares of its cell in both
  hierarchies, whether it is classified or not (the cell of Gar4010 is keyed by the feature
  notes; Gar8001 returns whenever crown closure, age and species percent are known, the other
  four always return). Gar4001 counts a record of the crown forest land base (\<open>gfa = 'Y'\<close>,
  with one of the three habitat notes) and leaves the state untouched otherwise. Gar8012 counts
  a record whose bec starts with ESSF or ICH and that is not No Harvest, and counts nothing
  otherwise.
\<close>

theorem total_area_counted:
  fixes s :: "'p gar" and a :: "'p args" and s7 :: "int gar" and a7 :: "int args"
    and s10 :: "string gar"
  shows
  "(\<forall>l s'. calculate_level_8001 s a = Inr (l, s') \<longrightarrow>
       counted s s' (op_area a) (pcell a) (shp_area a)) \<and>
   (cc a \<noteq> None \<and> age a \<noteq> None \<and> pct a \<noteq> None \<longrightarrow>
       (\<exists>l s'. calculate_level_8001 s a = Inr (l, s'))) \<and>
   (\<exists>l s'. calculate_level_8006 s a = Inr (l, s') \<and>
       counted s s' (op_area a) (pcell a) (shp_area a)) \<and>
   (\<exists>l s'. calculate_level_4007 s7 a7 = Inr (l, s') \<and>
       counted s7 s' (op_area a7) (pcell a7) (shp_area a7)) \<and>
   (\<exists>l s'. calculate_level_8005 s a = Inr (l, s') \<and>
       counted s s' (op_area a) (pcell a) (shp_area a)) \<and>
   (\<exists>l s'. calculate_level_4010 s10 a = Inr (l, s') \<and>
       counted s10 s' (op_area a) (notes a) (shp_area a)) \<and>
   (gfa a = Some ''Y'' \<and> notes a \<in> {str_mule_deer, str_moose, str_foraging} \<longrightarrow>
       (\<exists>l s'. calculate_level_4001 s a = Inr (l, s') \<and>
          counted s s' (op_area a) (pcell a) (shp_area a))) \<and>
   (gfa a \<noteq> Some ''Y'' \<longrightarrow> calculate_level_4001 s a = Inr (None, s)) \<and>
   (\<exists>l s'. calculate_level_8012 s a = Inr (l, s') \<and>
       (if l \<noteq> Some str_no_harv_8012 \<and>
           startswith_any (replace_spaces (bec a)) [''ESSF'', ''ICH'']
        then counted s s' (op_area a) (pcell a) (shp_area a)
        else counted s s' (op_area a) (pcell a) 0))"
  apply (intro conjI)
  subgoal using total_area_8001[of s a] by blast
  subgoal using calculate_level_8001_total[of a s] by blast
  subgoal by (rule total_area_8006)
  subgoal by (rule total_area_4007)
  subgoal by (rule total_area_8005)
  subgoal by (rule total_area_4010)
  subgoal using total_area_4001[of a s] by blast
  subgoal using total_area_4001[of a s] by blast
  subgoal by (rule total_area_8012)
  done

theorem total_area_counted_witness:
  "\<exists>l s'. calculate_level_8001 (new_gar :: string gar)
       \<lparr>bec = ''ICH mw 2'', age = Some 150, spp = ''FD'', cc = Some 40, slp = None,
        thlb = Some 1, diam = Some 12, pct = Some 80, gfa = Some ''Y'', notes = ''Mule Deer; ICHmw'',
        op_area = ''A'', pcell = ''c1'', shp_area = 2, target = None, height = None\<rparr> = Inr (l, s') \<and>
     cell_hectares s' ''c1'' = 2 \<and> op_area_hectares s' ''A'' ''c1'' = 2"
proof -
  let ?a = "\<lparr>bec = ''ICH mw 2'', age = Some 150, spp = ''FD'', cc = Some 40, slp = None,
        thlb = Some 1, diam = Some 12, pct = Some 80, gfa = Some ''Y'', notes = ''Mule Deer; ICHmw'',
        op_area = ''A'', pcell = ''c1'', shp_area = 2, target = None, height = None\<rparr> :: string args"
  note t = total_area_counted [of "new_gar :: string gar" ?a "new_gar" "undefined" "new_gar"]
  have "\<exists>l s'. calculate_level_8001 (new_gar :: string gar) ?a = Inr (l, s')"
    using t [THEN conjunct2, THEN conjunct1] by simp
  then obtain l s' where r: "calculate_level_8001 (new_gar :: string gar) ?a = Inr (l, s')"
    by blast
  have "counted new_gar s' (op_area ?a) (pcell ?a) (shp_area ?a)"
    using t [THEN conjunct1] r by blast
  then have "cell_hectares s' ''c1'' = 2 \<and> op_area_hectares s' ''A'' ''c1'' = 2"
    by (simp add: counted_def cell_hectares_def op_area_hectares_def new_gar_def get_total_def
        get_cell_def new_CellArea_def new_TotalArea_def)
  with r show ?thesis by blast
qed

subsection \<open>The immature rule\<close>



















subsection \<open>The rank walk of Gar8006\<close>

lemma str_nh_ne_ch: "str_nh \<noteq> str_ch" "str_ch \<noteq> str_nh"
  by (simp_all add: str_nh_def str_ch_def)

lemma get_level_vivify: "get_level (upd_level l id c) l' = get_level c l'"
  by (simp add: get_level_upd_level)

lemma rank_level_8006_zero:
  "level_area c l = 0 \<Longrightarrow>
   rank_level_8006 tgt l (c, rt, rk) = Inr (upd_level (Some l) id c, rt, rk)"
  by (simp add: rank_level_8006_def level_area_def get_level_upd_level)

lemma rank_level_8006_frozen:
  "rank_level_8006 tgt l (c, rt, str_ch) = Inr (upd_level (Some l) id c, rt, str_ch)"
  by (simp add: rank_level_8006_def Let_def)

text \<open>One iteration, observed: the rank of the level, the running total, the local rank.\<close>

lemma rank_level_8006_step:
  assumes tr: "tracks t P rt rk" and nn: "0 \<le> level_area c l"
    and fresh: "level_rank c l = None"
  shows "\<exists>c' rt' rk'. rank_level_8006 (Some t) l (c, rt, rk) = Inr (c', rt', rk') \<and>
           tracks t (P + level_area c l) rt' rk' \<and>
           (\<forall>k. k \<noteq> Some l \<longrightarrow> get_level c' k = get_level c k) \<and>
           (\<forall>k. l_hectares (get_level c' k) = l_hectares (get_level c k)) \<and>
           level_rank c' l = (if level_area c l = 0 then None
                              else spec_rank t P (level_area c l)) \<and>
           (rk = str_ch \<or> level_area c l = 0 \<longrightarrow>
              rt' = rt \<and> rk' = rk \<and> c_nh_hectares c' = c_nh_hectares c \<and>
              c_ch_hectares c' = c_ch_hectares c \<and> (\<forall>k. get_level c' k = get_level c k))"
proof (cases "level_area c l = 0")
  case True
  then show ?thesis
    using tr fresh
    by (simp add: rank_level_8006_zero get_level_upd_level level_rank_def upd_level_scalars)
next
  case nz: False
  show ?thesis
  proof (cases "rk = str_ch")
    case True
    then have "P > t" using tr by (simp add: tracks_def)
    with True nz nn fresh show ?thesis
      by (simp add: rank_level_8006_frozen get_level_upd_level level_rank_def upd_level_scalars
          tracks_def spec_rank_def)
  next
    case False
    then have P: "rt = P" "P \<le> t" using tr by (simp_all add: tracks_def)
    from nz nn have pos: "0 < level_area c l" by simp
    show ?thesis
      using False nz pos P
      by (auto simp add: rank_level_8006_def Let_def get_level_upd_level level_rank_def
          level_area_def upd_level_scalars get_level_scalars tracks_def spec_rank_def
          str_nh_ne_ch)
  qed
qed


lemma rank_levels_8006:
  assumes "distinct ls" and "tracks t P rt rk"
    and "\<forall>l\<in>set ls. 0 \<le> level_area c l \<and> level_rank c l = None"
  shows "\<exists>c' rt' rk'. for_each (rank_level_8006 (Some t)) ls (c, rt, rk) = Inr (c', rt', rk') \<and>
      tracks t (P + sum_list (map (level_area c) ls)) rt' rk' \<and>
      (\<forall>k. k \<notin> Some ` set ls \<longrightarrow> get_level c' k = get_level c k) \<and>
      (\<forall>k. l_hectares (get_level c' k) = l_hectares (get_level c k)) \<and>
      (\<forall>pre l post. ls = pre @ l # post \<longrightarrow>
         level_rank c' l = (if level_area c l = 0 then None
            else spec_rank t (P + sum_list (map (level_area c) pre)) (level_area c l)))"
  using assms
proof (induction ls arbitrary: c rt rk P)
  case Nil
  then show ?case by simp
next
  case (Cons x xs)
  from Cons.prems have x: "0 \<le> level_area c x" "level_rank c x = None" by simp_all
  from rank_level_8006_step[OF Cons.prems(2) x]
  obtain c1 rt1 rk1 where
    s: "rank_level_8006 (Some t) x (c, rt, rk) = Inr (c1, rt1, rk1)"
    and tr1: "tracks t (P + level_area c x) rt1 rk1"
    and other: "\<And>k. k \<noteq> Some x \<Longrightarrow> get_level c1 k = get_level c k"
    and hect: "\<And>k. l_hectares (get_level c1 k) = l_hectares (get_level c k)"
    and rx: "level_rank c1 x = (if level_area c x = 0 then None
                              else spec_rank t P (level_area c x))"
    by blast
  have area: "level_area c1 = level_area c"
    by (rule ext) (simp add: level_area_def hect)
  have fresh1: "\<forall>l\<in>set xs. 0 \<le> level_area c1 l \<and> level_rank c1 l = None"
  proof
    fix l assume l: "l \<in> set xs"
    with Cons.prems(1) have "l \<noteq> x" by auto
    then have "level_rank c1 l = level_rank c l" by (simp add: level_rank_def other)
    with l Cons.prems(3) show "0 \<le> level_area c1 l \<and> level_rank c1 l = None"
      by (simp add: area)
  qed
  from Cons.prems(1) have dxs: "distinct xs" and xn: "x \<notin> set xs" by simp_all
  from Cons.IH[OF dxs tr1 fresh1]
  obtain c' rt' rk' where
    f: "for_each (rank_level_8006 (Some t)) xs (c1, rt1, rk1) = Inr (c', rt', rk')"
    and tr': "tracks t (P + level_area c x + sum_list (map (level_area c1) xs)) rt' rk'"
    and other': "\<And>k. k \<notin> Some ` set xs \<Longrightarrow> get_level c' k = get_level c1 k"
    and hect': "\<And>k. l_hectares (get_level c' k) = l_hectares (get_level c1 k)"
    and rk': "\<And>pre l post. xs = pre @ l # post \<Longrightarrow>
         level_rank c' l = (if level_area c1 l = 0 then None
            else spec_rank t (P + level_area c x + sum_list (map (level_area c1) pre)) (level_area c1 l))"
    by blast
  have 1: "for_each (rank_level_8006 (Some t)) (x # xs) (c, rt, rk) = Inr (c', rt', rk')"
    using s f by simp
  have 2: "tracks t (P + sum_list (map (level_area c) (x # xs))) rt' rk'"
    using tr' by (simp add: area add.assoc)
  have 3: "\<forall>k. k \<notin> Some ` set (x # xs) \<longrightarrow> get_level c' k = get_level c k"
    using other other' by auto
  have 4: "\<forall>k. l_hectares (get_level c' k) = l_hectares (get_level c k)"
    using hect hect' by simp
  have 5: "\<forall>pre l post. x # xs = pre @ l # post \<longrightarrow>
         level_rank c' l = (if level_area c l = 0 then None
            else spec_rank t (P + sum_list (map (level_area c) pre)) (level_area c l))"
  proof (intro allI impI)
    fix pre l post assume d: "x # xs = pre @ l # post"
    show "level_rank c' l = (if level_area c l = 0 then None
            else spec_rank t (P + sum_list (map (level_area c) pre)) (level_area c l))"
    proof (cases pre)
      case Nil
      with d have lx: "l = x" by simp
      have "Some x \<notin> Some ` set xs" using xn by auto
      then have "level_rank c' x = level_rank c1 x"
        by (simp add: level_rank_def other')
      with rx lx Nil show ?thesis by simp
    next
      case (Cons y pre')
      with d have "xs = pre' @ l # post" "y = x" by simp_all
      from rk'[OF this(1)] show ?thesis
        using Cons \<open>y = x\<close> by (simp add: area add.assoc)
    qed
  qed
  from 1 2 3 4 5 show ?case by blast
qed

subsection \<open>The rank walk of Gar8001\<close>

lemma get_bec_level_fields:
  "get_bec (upd_level l (\<lambda>x. x\<lparr>l_rank := r\<rparr>) c) k b = get_bec c k b"
  "get_bec (upd_level l (\<lambda>x. x\<lparr>l_hectares := g x\<rparr>) c) k b = get_bec c k b"
  "get_bec (upd_level l id c) k b = get_bec c k b"
  "get_bec (add_level_hectares l a c) k b = get_bec c k b"
  by (simp_all add: get_bec_upd_level add_level_hectares_def)

lemma bec_keys_level_fields:
  "bec_keys (upd_level l (\<lambda>x. x\<lparr>l_rank := r\<rparr>) c) k = bec_keys c k"
  "bec_keys (upd_level l (\<lambda>x. x\<lparr>l_hectares := g x\<rparr>) c) k = bec_keys c k"
  "bec_keys (upd_level l id c) k = bec_keys c k"
  "bec_keys (add_level_hectares l a c) k = bec_keys c k"
  by (simp_all add: bec_keys_def get_level_upd_level add_level_hectares_def)

lemma bec_keys_scalars:
  "bec_keys (c\<lparr>c_nthlb_hectares := x\<rparr>) k = bec_keys c k"
  "bec_keys (c\<lparr>c_sic_hectares := x\<rparr>) k = bec_keys c k"
  "bec_keys (c\<lparr>c_ch_hectares := x\<rparr>) k = bec_keys c k"
  "bec_keys (c\<lparr>c_nh_hectares := x\<rparr>) k = bec_keys c k"
  "bec_keys (c\<lparr>c_imm_hectares := x\<rparr>) k = bec_keys c k"
  by (simp_all add: bec_keys_def get_level_scalars)

lemma bec_keys_upd_bec:
  "b \<in> set (bec_keys c l) \<Longrightarrow> bec_keys (upd_bec l b f c) k = bec_keys c k"
  by (simp add: bec_keys_def get_level_upd_bec keys_dd_upd)

lemmas walk_simps = get_bec_upd_bec get_bec_level_fields get_bec_scalars
  bec_keys_level_fields bec_keys_scalars bec_keys_upd_bec

lemma rank_update_8001_step:
  assumes tr: "tracks t P rt rk" and nn: "0 \<le> A"
    and fresh: "b_rank (get_bec c (Some l) b) = None"
    and key: "b \<in> set (bec_keys c (Some l))"
  shows "\<exists>c' rt' rk'. rank_update_8001 t l b A (c, rt, rk) = (c', rt', rk') \<and>
      tracks t (P + A) rt' rk' \<and>
      (\<forall>k b'. (k, b') \<noteq> (Some l, b) \<longrightarrow> get_bec c' k b' = get_bec c k b') \<and>
      b_hectares (get_bec c' (Some l) b) = b_hectares (get_bec c (Some l) b) \<and>
      b_rank (get_bec c' (Some l) b) = spec_rank t P A \<and>
      (\<forall>k. bec_keys c' k = bec_keys c k) \<and>
      (rk = str_ch \<longrightarrow> rt' = rt \<and> rk' = rk)"
proof (cases "rk = str_ch")
  case True
  then have "P > t" using tr by (simp add: tracks_def)
  with True nn fresh show ?thesis
    by (simp add: rank_update_8001_def walk_simps tracks_def spec_rank_def)
next
  case False
  then have P: "rt = P" "P \<le> t" using tr by (simp_all add: tracks_def)
  show ?thesis
    using False P nn key
    by (auto simp add: rank_update_8001_def Let_def walk_simps tracks_def spec_rank_def
        str_nh_ne_ch)
qed


lemma rank_bec_8001_as_update:
  assumes "l \<noteq> str_imm_8001"
  shows "\<exists>c3. rank_bec_8001 t l b (c, rt, rk) =
           rank_update_8001 t l b (counted_area t (l, b) (bucket_area c (l, b))) (c3, rt, rk) \<and>
         (\<forall>k b'. (k, b') \<noteq> (Some l, b) \<longrightarrow> get_bec c3 k b' = get_bec c k b') \<and>
         b_hectares (get_bec c3 (Some l) b) = counted_area t (l, b) (bucket_area c (l, b)) \<and>
         b_rank (get_bec c3 (Some l) b) = b_rank (get_bec c (Some l) b) \<and>
         (b \<in> set (bec_keys c (Some l)) \<longrightarrow> (\<forall>k. bec_keys c3 k = bec_keys c k))"
proof (cases "l = str_nthlb_sic")
  case True
  show ?thesis
  proof (cases "\<not> startswith b ''IDFmw'' \<and> bucket_area c (l, b) \<ge> t * 0.5")
    case cap: True
    let ?c1 = "upd_bec (Some l) b (\<lambda>x. x\<lparr>b_hectares := t * 0.5\<rparr>) c"
    let ?c2 = "(if startswith_any b [''IDFdk'', ''IDFdm'', ''ICHdw'', ''MS'']
               then ?c1\<lparr>c_nthlb_hectares := c_nthlb_hectares ?c1 + t * 0.5\<rparr> else ?c1)"
    let ?c3 = "?c2\<lparr>c_sic_hectares := c_sic_hectares ?c2 + t * 0.5\<rparr>"
    have "rank_bec_8001 t l b (c, rt, rk) =
           rank_update_8001 t l b (counted_area t (l, b) (bucket_area c (l, b))) (?c3, rt, rk)"
      using True cap
      by (simp add: rank_bec_8001_def Let_def counted_area_def bucket_area_def walk_simps)
    moreover have "\<forall>k b'. (k, b') \<noteq> (Some l, b) \<longrightarrow> get_bec ?c3 k b' = get_bec c k b'"
      by (auto simp: walk_simps)
    moreover have "b_hectares (get_bec ?c3 (Some l) b) = counted_area t (l, b) (bucket_area c (l, b))"
      using True cap by (simp add: walk_simps counted_area_def)
    moreover have "b_rank (get_bec ?c3 (Some l) b) = b_rank (get_bec c (Some l) b)"
      by (simp add: walk_simps)
    moreover have "b \<in> set (bec_keys c (Some l)) \<longrightarrow> (\<forall>k. bec_keys ?c3 k = bec_keys c k)"
      by (simp add: walk_simps)
    ultimately show ?thesis by blast
  next
    case nocap: False
    let ?c2 = "(if startswith_any b [''IDFdk'', ''IDFdm'', ''ICHdw'', ''MS'']
               then c\<lparr>c_nthlb_hectares := c_nthlb_hectares c + bucket_area c (l, b)\<rparr> else c)"
    let ?c3 = "?c2\<lparr>c_sic_hectares := c_sic_hectares ?c2 + bucket_area c (l, b)\<rparr>"
    have "rank_bec_8001 t l b (c, rt, rk) =
           rank_update_8001 t l b (counted_area t (l, b) (bucket_area c (l, b))) (?c3, rt, rk)"
      using True nocap
      by (auto simp add: rank_bec_8001_def Let_def counted_area_def bucket_area_def)
    moreover have "\<forall>k b'. get_bec ?c3 k b' = get_bec c k b'"
      by (simp add: walk_simps)
    moreover have "b_hectares (get_bec ?c3 (Some l) b) = counted_area t (l, b) (bucket_area c (l, b))"
      using True nocap by (auto simp add: walk_simps counted_area_def bucket_area_def)
    moreover have "\<forall>k. bec_keys ?c3 k = bec_keys c k"
      by (simp add: walk_simps)
    ultimately show ?thesis by (intro exI[of _ ?c3]) simp
  qed
next
  case False
  let ?c3 = "(if l = str_sic then c\<lparr>c_sic_hectares := c_sic_hectares c + bucket_area c (l, b)\<rparr> else c)"
  have "rank_bec_8001 t l b (c, rt, rk) =
           rank_update_8001 t l b (counted_area t (l, b) (bucket_area c (l, b))) (?c3, rt, rk)"
    using False assms
    by (simp add: rank_bec_8001_def Let_def counted_area_def bucket_area_def)
  moreover have "\<forall>k b'. get_bec ?c3 k b' = get_bec c k b'"
    by (simp add: walk_simps)
  moreover have "b_hectares (get_bec ?c3 (Some l) b) = counted_area t (l, b) (bucket_area c (l, b))"
    using False by (simp add: walk_simps counted_area_def bucket_area_def)
  moreover have "\<forall>k. bec_keys ?c3 k = bec_keys c k"
    by (simp add: walk_simps)
  ultimately show ?thesis by (intro exI[of _ ?c3]) simp
qed

lemma rank_bec_8001_step:
  assumes tr: "tracks t P rt rk" and ni: "l \<noteq> str_imm_8001"
    and nn: "0 \<le> counted_area t (l, b) (bucket_area c (l, b))"
    and fresh: "bucket_rank c (l, b) = None"
    and key: "b \<in> set (bec_keys c (Some l))"
  shows "\<exists>c' rt' rk'. rank_bec_8001 t l b (c, rt, rk) = (c', rt', rk') \<and>
      tracks t (P + counted_area t (l, b) (bucket_area c (l, b))) rt' rk' \<and>
      (\<forall>k b'. (k, b') \<noteq> (Some l, b) \<longrightarrow> get_bec c' k b' = get_bec c k b') \<and>
      bucket_area c' (l, b) = counted_area t (l, b) (bucket_area c (l, b)) \<and>
      bucket_rank c' (l, b) = spec_rank t P (counted_area t (l, b) (bucket_area c (l, b))) \<and>
      (\<forall>k. bec_keys c' k = bec_keys c k) \<and>
      (rk = str_ch \<longrightarrow> rt' = rt \<and> rk' = rk)"
proof -
  let ?A = "counted_area t (l, b) (bucket_area c (l, b))"
  from rank_bec_8001_as_update[OF ni, of t b c rt rk] key
  obtain c3 where e: "rank_bec_8001 t l b (c, rt, rk) = rank_update_8001 t l b ?A (c3, rt, rk)"
    and o3: "\<And>k b'. (k, b') \<noteq> (Some l, b) \<Longrightarrow> get_bec c3 k b' = get_bec c k b'"
    and h3: "b_hectares (get_bec c3 (Some l) b) = ?A"
    and r3: "b_rank (get_bec c3 (Some l) b) = b_rank (get_bec c (Some l) b)"
    and k3: "\<And>k. bec_keys c3 k = bec_keys c k"
    by blast
  have f3: "b_rank (get_bec c3 (Some l) b) = None"
    using r3 fresh by (simp add: bucket_rank_def)
  have key3: "b \<in> set (bec_keys c3 (Some l))" using key k3 by simp
  from rank_update_8001_step[OF tr nn f3 key3]
  obtain c' rt' rk' where u: "rank_update_8001 t l b ?A (c3, rt, rk) = (c', rt', rk')"
    and 1: "tracks t (P + ?A) rt' rk'"
    and 2: "\<And>k b'. (k, b') \<noteq> (Some l, b) \<Longrightarrow> get_bec c' k b' = get_bec c3 k b'"
    and 3: "b_hectares (get_bec c' (Some l) b) = b_hectares (get_bec c3 (Some l) b)"
    and 4: "b_rank (get_bec c' (Some l) b) = spec_rank t P ?A"
    and 5: "\<And>k. bec_keys c' k = bec_keys c3 k"
    and 6: "rk = str_ch \<longrightarrow> rt' = rt \<and> rk' = rk"
    by blast
  show ?thesis
    using e u 1 2 3 4 5 6 o3 h3 k3
    by (simp add: bucket_area_def bucket_rank_def)
qed

lemma rank_bec_8001_immature:
  "\<exists>c'. rank_bec_8001 t str_imm_8001 b (c, rt, rk) = (c', rt, rk) \<and>
      (\<forall>k b'. get_bec c' k b' = get_bec c k b') \<and> (\<forall>k. bec_keys c' k = bec_keys c k)"
  by (simp add: rank_bec_8001_def Let_def walk_simps str_imm_8001_def str_nthlb_sic_def
      str_sic_def)


lemma rank_becs_8001:
  assumes "distinct bs" and "tracks t P rt rk" and ni: "l \<noteq> str_imm_8001"
    and "\<forall>b\<in>set bs. 0 \<le> bucket_counted t c (l, b) \<and> bucket_rank c (l, b) = None \<and>
           b \<in> set (bec_keys c (Some l))"
  shows "\<exists>c' rt' rk'. fold (rank_bec_8001 t l) bs (c, rt, rk) = (c', rt', rk') \<and>
     tracks t (P + sum_list (map (\<lambda>b. bucket_counted t c (l, b)) bs)) rt' rk' \<and>
     (\<forall>k b'. \<not> (k = Some l \<and> b' \<in> set bs) \<longrightarrow> get_bec c' k b' = get_bec c k b') \<and>
     (\<forall>k. bec_keys c' k = bec_keys c k) \<and>
     (\<forall>pre b post. bs = pre @ b # post \<longrightarrow>
        bucket_area c' (l, b) = bucket_counted t c (l, b) \<and>
        bucket_rank c' (l, b) =
          spec_rank t (P + sum_list (map (\<lambda>b. bucket_counted t c (l, b)) pre))
            (bucket_counted t c (l, b))) \<and>
     (rk = str_ch \<longrightarrow> rt' = rt \<and> rk' = rk)"
  using assms(1,2,4)
proof (induction bs arbitrary: c rt rk P)
  case Nil
  then show ?case by simp
next
  case (Cons x xs)
  let ?A = "\<lambda>c b. bucket_counted t c (l, b)"
  from Cons.prems have x: "0 \<le> counted_area t (l, x) (bucket_area c (l, x))"
    "bucket_rank c (l, x) = None" "x \<in> set (bec_keys c (Some l))"
    by (simp_all add: bucket_counted_def)
  from rank_bec_8001_step[OF Cons.prems(2) ni x]
  obtain c1 rt1 rk1 where
    s: "rank_bec_8001 t l x (c, rt, rk) = (c1, rt1, rk1)"
    and tr1: "tracks t (P + ?A c x) rt1 rk1"
    and other: "\<And>k b'. (k, b') \<noteq> (Some l, x) \<Longrightarrow> get_bec c1 k b' = get_bec c k b'"
    and ax: "bucket_area c1 (l, x) = ?A c x"
    and rx: "bucket_rank c1 (l, x) = spec_rank t P (?A c x)"
    and keys: "\<And>k. bec_keys c1 k = bec_keys c k"
    and fr: "rk = str_ch \<longrightarrow> rt1 = rt \<and> rk1 = rk"
    unfolding bucket_counted_def by blast
  from Cons.prems(1) have dxs: "distinct xs" and xn: "x \<notin> set xs" by simp_all
  have same: "get_bec c1 (Some l) b = get_bec c (Some l) b" if "b \<in> set xs" for b
  proof -
    from that xn have "(Some l, b) \<noteq> (Some l, x)" by auto
    then show ?thesis by (rule other)
  qed
  have A1: "\<And>b. b \<in> set xs \<Longrightarrow> ?A c1 b = ?A c b"
    by (simp add: bucket_counted_def bucket_area_def same)
  have fresh1: "\<forall>b\<in>set xs. 0 \<le> bucket_counted t c1 (l, b) \<and> bucket_rank c1 (l, b) = None \<and>
           b \<in> set (bec_keys c1 (Some l))"
    using Cons.prems(3) A1 same keys by (simp add: bucket_rank_def)
  from Cons.IH[OF dxs tr1 fresh1]
  obtain c' rt' rk' where
    f: "fold (rank_bec_8001 t l) xs (c1, rt1, rk1) = (c', rt', rk')"
    and tr': "tracks t (P + ?A c x + sum_list (map (?A c1) xs)) rt' rk'"
    and other': "\<And>k b'. \<not> (k = Some l \<and> b' \<in> set xs) \<Longrightarrow> get_bec c' k b' = get_bec c1 k b'"
    and keys': "\<And>k. bec_keys c' k = bec_keys c1 k"
    and rk': "\<And>pre b post. xs = pre @ b # post \<Longrightarrow>
        bucket_area c' (l, b) = ?A c1 b \<and>
        bucket_rank c' (l, b) = spec_rank t (P + ?A c x + sum_list (map (?A c1) pre)) (?A c1 b)"
    and fr': "rk1 = str_ch \<longrightarrow> rt' = rt1 \<and> rk' = rk1"
    by blast
  have sums: "\<And>ys. set ys \<subseteq> set xs \<Longrightarrow> map (?A c1) ys = map (?A c) ys"
    using A1 by (auto intro: map_cong)
  have 1: "fold (rank_bec_8001 t l) (x # xs) (c, rt, rk) = (c', rt', rk')"
    using s f by simp
  have 2: "tracks t (P + sum_list (map (?A c) (x # xs))) rt' rk'"
    using tr' sums[of xs] by (simp add: add.assoc)
  have 3: "\<forall>k b'. \<not> (k = Some l \<and> b' \<in> set (x # xs)) \<longrightarrow> get_bec c' k b' = get_bec c k b'"
    using other other' by auto
  have 4: "\<forall>k. bec_keys c' k = bec_keys c k"
    using keys keys' by simp
  have 5: "\<forall>pre b post. x # xs = pre @ b # post \<longrightarrow>
        bucket_area c' (l, b) = ?A c b \<and>
        bucket_rank c' (l, b) = spec_rank t (P + sum_list (map (?A c) pre)) (?A c b)"
  proof (intro allI impI)
    fix pre b post assume d: "x # xs = pre @ b # post"
    show "bucket_area c' (l, b) = ?A c b \<and>
        bucket_rank c' (l, b) = spec_rank t (P + sum_list (map (?A c) pre)) (?A c b)"
    proof (cases pre)
      case Nil
      with d have bx: "b = x" by simp
      have "get_bec c' (Some l) x = get_bec c1 (Some l) x"
        using other'[of "Some l" x] xn by simp
      then show ?thesis
        using ax rx bx Nil by (simp add: bucket_area_def bucket_rank_def)
    next
      case (Cons y pre')
      with d have xs: "xs = pre' @ b # post" and yx: "y = x" by simp_all
      from xs have sub: "set pre' \<subseteq> set xs" and bin: "b \<in> set xs" by auto
      from rk'[OF xs] show ?thesis
        using Cons yx sums[OF sub] A1[OF bin] by (simp add: add.assoc)
    qed
  qed
  have 6: "rk = str_ch \<longrightarrow> rt' = rt \<and> rk' = rk"
    using fr fr' by simp
  from 1 2 3 4 5 6 show ?case by blast
qed

lemma rank_becs_8001_immature:
  "\<exists>c'. fold (rank_bec_8001 t str_imm_8001) bs (c0, rt, rk) = (c', rt, rk) \<and>
      (\<forall>k b'. get_bec c' k b' = get_bec c0 k b') \<and> (\<forall>k. bec_keys c' k = bec_keys c0 k)"
proof (induction bs arbitrary: c0)
  case Nil
  then show ?case by simp
next
  case (Cons x xs)
  from rank_bec_8001_immature[of t x c0 rt rk]
  obtain c1 where c1: "rank_bec_8001 t str_imm_8001 x (c0, rt, rk) = (c1, rt, rk)"
    "\<And>k b'. get_bec c1 k b' = get_bec c0 k b'" "\<And>k. bec_keys c1 k = bec_keys c0 k"
    by blast
  from Cons.IH[of c1]
  obtain c' where c': "fold (rank_bec_8001 t str_imm_8001) xs (c1, rt, rk) = (c', rt, rk)"
    "\<And>k b'. get_bec c' k b' = get_bec c1 k b'" "\<And>k. bec_keys c' k = bec_keys c1 k"
    by blast
  have "fold (rank_bec_8001 t str_imm_8001) (x # xs) (c0, rt, rk) = (c', rt, rk)"
    using c1(1) c'(1) by simp
  moreover have "\<forall>k b'. get_bec c' k b' = get_bec c0 k b'" using c1(2) c'(2) by simp
  moreover have "\<forall>k. bec_keys c' k = bec_keys c0 k" using c1(3) c'(3) by simp
  ultimately show ?case by blast
qed

lemma map_pair_decomp:
  "map (Pair l) ks = pre @ lb # post \<Longrightarrow>
   \<exists>pre' b post'. ks = pre' @ b # post' \<and> pre = map (Pair l) pre' \<and> lb = (l, b)"
proof (induction ks arbitrary: pre)
  case Nil
  then show ?case by simp
next
  case (Cons k ks)
  show ?case
  proof (cases pre)
    case Nil
    with Cons.prems have "lb = (l, k)" by simp
    then have "k # ks = [] @ k # ks \<and> pre = map (Pair l) [] \<and> lb = (l, k)" using Nil by simp
    then show ?thesis by blast
  next
    case (Cons p pre1)
    with Cons.prems have p: "p = (l, k)" and r: "map (Pair l) ks = pre1 @ lb # post" by simp_all
    from Cons.IH[OF r] obtain pre' b post' where
      "ks = pre' @ b # post'" "pre1 = map (Pair l) pre'" "lb = (l, b)" by blast
    then have "k # ks = (k # pre') @ b # post' \<and> pre = map (Pair l) (k # pre') \<and> lb = (l, b)"
      using Cons p by simp
    then show ?thesis by blast
  qed
qed

lemma vivify_views:
  "get_bec (upd_level (Some l) id c) k b = get_bec c k b"
  "bec_keys (upd_level (Some l) id c) k = bec_keys c k"
  "bucket_area (upd_level (Some l) id c) = bucket_area c"
  "bucket_rank (upd_level (Some l) id c) = bucket_rank c"
  "bucket_counted t (upd_level (Some l) id c) = bucket_counted t c"
  by (simp_all add: walk_simps bucket_area_def bucket_rank_def bucket_counted_def fun_eq_iff)

lemma rank_level_8001_fold:
  "rank_level_8001 t l (c, rt, rk) =
     fold (rank_bec_8001 t l) (bec_keys c (Some l)) (upd_level (Some l) id c, rt, rk)"
  by (simp add: rank_level_8001_def Let_def bec_keys_def get_level_upd_level)

lemma rank_level_8001_imm:
  "\<exists>c'. rank_level_8001 t str_imm_8001 (c, rt, rk) = (c', rt, rk) \<and>
      bucket_area c' = bucket_area c \<and> bucket_rank c' = bucket_rank c \<and>
      (\<forall>k. bec_keys c' k = bec_keys c k)"
proof -
  from rank_becs_8001_immature[of t "bec_keys c (Some str_imm_8001)"
      "upd_level (Some str_imm_8001) id c" rt rk]
  obtain c' where f: "fold (rank_bec_8001 t str_imm_8001) (bec_keys c (Some str_imm_8001))
         (upd_level (Some str_imm_8001) id c, rt, rk) = (c', rt, rk)"
    and g: "\<And>k b'. get_bec c' k b' = get_bec c k b'"
    and k: "\<And>k. bec_keys c' k = bec_keys c k"
    unfolding vivify_views by blast
  have "bucket_area c' = bucket_area c" "bucket_rank c' = bucket_rank c"
    by (simp_all add: bucket_area_def bucket_rank_def g fun_eq_iff)
  with f k show ?thesis by (simp add: rank_level_8001_fold)
qed

lemma rank_level_8001_ranked:
  assumes tr: "tracks t P rt rk" and d: "distinct (bec_keys c (Some l))"
    and ni: "l \<noteq> str_imm_8001"
    and fresh: "\<forall>lb\<in>set (level_buckets c l). 0 \<le> bucket_counted t c lb \<and> bucket_rank c lb = None"
  shows "\<exists>c' rt' rk'. rank_level_8001 t l (c, rt, rk) = (c', rt', rk') \<and>
     tracks t (P + sum_list (map (bucket_counted t c) (level_buckets c l))) rt' rk' \<and>
     (\<forall>lb. lb \<notin> set (level_buckets c l) \<longrightarrow>
            bucket_area c' lb = bucket_area c lb \<and> bucket_rank c' lb = bucket_rank c lb) \<and>
     (\<forall>k. bec_keys c' k = bec_keys c k) \<and>
     (\<forall>pre lb post. level_buckets c l = pre @ lb # post \<longrightarrow>
        bucket_area c' lb = bucket_counted t c lb \<and>
        bucket_rank c' lb =
          spec_rank t (P + sum_list (map (bucket_counted t c) pre)) (bucket_counted t c lb)) \<and>
     (rk = str_ch \<longrightarrow> rt' = rt \<and> rk' = rk)"
proof -
  let ?v = "upd_level (Some l) id c"
  let ?A = "\<lambda>b. bucket_counted t c (l, b)"
  have lbs: "level_buckets c l = map (Pair l) (bec_keys c (Some l))"
    using ni by (simp add: level_buckets_def)
  have pre: "\<forall>b\<in>set (bec_keys c (Some l)). 0 \<le> bucket_counted t ?v (l, b) \<and>
        bucket_rank ?v (l, b) = None \<and> b \<in> set (bec_keys ?v (Some l))"
    using fresh by (simp add: lbs vivify_views)
  note r = rank_becs_8001[OF d tr ni pre, unfolded vivify_views]
  from r obtain c' rt' rk' where
    f: "fold (rank_bec_8001 t l) (bec_keys c (Some l)) (?v, rt, rk) = (c', rt', rk')"
    and tr': "tracks t (P + sum_list (map ?A (bec_keys c (Some l)))) rt' rk'"
    and other: "\<And>k b'. \<not> (k = Some l \<and> b' \<in> set (bec_keys c (Some l))) \<Longrightarrow>
                  get_bec c' k b' = get_bec c k b'"
    and keys: "\<And>k. bec_keys c' k = bec_keys c k"
    and rk': "\<And>pre b post. bec_keys c (Some l) = pre @ b # post \<Longrightarrow>
      bucket_area c' (l, b) = ?A b \<and>
      bucket_rank c' (l, b) = spec_rank t (P + sum_list (map ?A pre)) (?A b)"
    and fr: "rk = str_ch \<longrightarrow> rt' = rt \<and> rk' = rk"
    by blast
  have 1: "rank_level_8001 t l (c, rt, rk) = (c', rt', rk')"
    using f by (simp add: rank_level_8001_fold)
  have 2: "tracks t (P + sum_list (map (bucket_counted t c) (level_buckets c l))) rt' rk'"
    using tr' by (simp add: lbs comp_def)
  have 3: "\<forall>lb. lb \<notin> set (level_buckets c l) \<longrightarrow>
          bucket_area c' lb = bucket_area c lb \<and> bucket_rank c' lb = bucket_rank c lb"
  proof (intro allI impI)
    fix lb :: "string \<times> string" assume n: "lb \<notin> set (level_buckets c l)"
    have "\<not> (Some (fst lb) = Some l \<and> snd lb \<in> set (bec_keys c (Some l)))"
    proof
      assume "Some (fst lb) = Some l \<and> snd lb \<in> set (bec_keys c (Some l))"
      then have "lb \<in> Pair l ` set (bec_keys c (Some l))" by (cases lb) simp
      with n show False by (simp add: lbs)
    qed
    from other[OF this]
    show "bucket_area c' lb = bucket_area c lb \<and> bucket_rank c' lb = bucket_rank c lb"
      by (simp add: bucket_area_def bucket_rank_def)
  qed
  have 4: "\<forall>k. bec_keys c' k = bec_keys c k" using keys by simp
  have 5: "\<forall>pre lb post. level_buckets c l = pre @ lb # post \<longrightarrow>
      bucket_area c' lb = bucket_counted t c lb \<and>
      bucket_rank c' lb =
        spec_rank t (P + sum_list (map (bucket_counted t c) pre)) (bucket_counted t c lb)"
  proof (intro allI impI)
    fix pre lb post assume a: "level_buckets c l = pre @ lb # post"
    then have "map (Pair l) (bec_keys c (Some l)) = pre @ lb # post" by (simp add: lbs)
    from map_pair_decomp[OF this]
    obtain pre' b post' where k: "bec_keys c (Some l) = pre' @ b # post'"
      and p: "pre = map (Pair l) pre'" and b: "lb = (l, b)"
      by blast
    from rk'[OF k] show "bucket_area c' lb = bucket_counted t c lb \<and>
      bucket_rank c' lb =
        spec_rank t (P + sum_list (map (bucket_counted t c) pre)) (bucket_counted t c lb)"
      by (simp add: p b comp_def)
  qed
  from 1 2 3 4 5 fr show ?thesis by blast
qed

lemma rank_level_8001_walk:
  assumes tr: "tracks t P rt rk" and d: "distinct (bec_keys c (Some l))"
    and fresh: "\<forall>lb\<in>set (level_buckets c l). 0 \<le> bucket_counted t c lb \<and> bucket_rank c lb = None"
  shows "\<exists>c' rt' rk'. rank_level_8001 t l (c, rt, rk) = (c', rt', rk') \<and>
     tracks t (P + sum_list (map (bucket_counted t c) (level_buckets c l))) rt' rk' \<and>
     (\<forall>lb. lb \<notin> set (level_buckets c l) \<longrightarrow>
            bucket_area c' lb = bucket_area c lb \<and> bucket_rank c' lb = bucket_rank c lb) \<and>
     (\<forall>k. bec_keys c' k = bec_keys c k) \<and>
     (\<forall>pre lb post. level_buckets c l = pre @ lb # post \<longrightarrow>
        bucket_area c' lb = bucket_counted t c lb \<and>
        bucket_rank c' lb =
          spec_rank t (P + sum_list (map (bucket_counted t c) pre)) (bucket_counted t c lb)) \<and>
     (rk = str_ch \<longrightarrow> rt' = rt \<and> rk' = rk)"
proof (cases "l = str_imm_8001")
  case True
  from rank_level_8001_imm[of t c rt rk]
  obtain c' where 1: "rank_level_8001 t str_imm_8001 (c, rt, rk) = (c', rt, rk)"
    and a: "bucket_area c' = bucket_area c" and r: "bucket_rank c' = bucket_rank c"
    and k: "\<forall>k. bec_keys c' k = bec_keys c k"
    by blast
  have e: "level_buckets c str_imm_8001 = []" by (simp add: level_buckets_def)
  show ?thesis
    unfolding True using 1 a r k tr by (simp add: e)
next
  case False
  from rank_level_8001_ranked[OF tr d False fresh] show ?thesis .
qed

lemma fst_level_buckets: "lb \<in> set (level_buckets c l) \<Longrightarrow> fst lb = l"
  by (auto simp: level_buckets_def split: if_splits)

lemma level_buckets_cong:
  assumes "\<And>k. bec_keys c' k = bec_keys c k"
  shows "level_buckets c' = level_buckets c"
  by (rule ext) (simp add: level_buckets_def assms)

lemma buckets_cong:
  assumes "\<And>k. bec_keys c' k = bec_keys c k"
  shows "buckets c' ls = buckets c ls"
  by (simp add: buckets_def level_buckets_cong[OF assms])

lemma buckets_Nil: "buckets c [] = []"
  by (simp add: buckets_def)

lemma buckets_Cons: "buckets c (x # xs) = level_buckets c x @ buckets c xs"
  by (simp add: buckets_def)

lemma fst_buckets: "lb \<in> set (buckets c ls) \<Longrightarrow> fst lb \<in> set ls"
proof (induction ls)
  case Nil
  then show ?case by (simp add: buckets_Nil)
next
  case (Cons x xs)
  then show ?case
    using fst_level_buckets[of lb c x] by (auto simp: buckets_Cons)
qed

lemma append_eq_append_Cons_cases:
  assumes "xs @ ys = pre @ z # post"
  shows "(\<exists>us. xs = pre @ z # us \<and> post = us @ ys) \<or> (\<exists>us. pre = xs @ us \<and> ys = us @ z # post)"
  using assms
proof (induction xs arbitrary: pre)
  case Nil
  then show ?case by simp
next
  case (Cons x xs)
  show ?case
  proof (cases pre)
    case Nil
    with Cons.prems show ?thesis by simp
  next
    case (Cons p pre1)
    with Cons.prems have px: "p = x" and r: "xs @ ys = pre1 @ z # post" by simp_all
    from Cons.IH[OF r] show ?thesis using Cons px by auto
  qed
qed

lemma rank_levels_8001_walk:
  assumes "distinct ls" and "tracks t P rt rk"
    and "\<forall>l\<in>set ls. distinct (bec_keys c (Some l))"
    and "\<forall>lb\<in>set (buckets c ls). 0 \<le> bucket_counted t c lb \<and> bucket_rank c lb = None"
  shows "\<exists>c' rt' rk'. fold (rank_level_8001 t) ls (c, rt, rk) = (c', rt', rk') \<and>
     tracks t (P + sum_list (map (bucket_counted t c) (buckets c ls))) rt' rk' \<and>
     (\<forall>lb. lb \<notin> set (buckets c ls) \<longrightarrow>
            bucket_area c' lb = bucket_area c lb \<and> bucket_rank c' lb = bucket_rank c lb) \<and>
     (\<forall>k. bec_keys c' k = bec_keys c k) \<and>
     (\<forall>pre lb post. buckets c ls = pre @ lb # post \<longrightarrow>
        bucket_area c' lb = bucket_counted t c lb \<and>
        bucket_rank c' lb =
          spec_rank t (P + sum_list (map (bucket_counted t c) pre)) (bucket_counted t c lb))"
  using assms
proof (induction ls arbitrary: c rt rk P)
  case Nil
  then show ?case by (simp add: buckets_Nil)
next
  case (Cons x xs)
  let ?bx = "level_buckets c x"
  let ?bxs = "buckets c xs"
  let ?A = "bucket_counted t c"
  from Cons.prems(1) have dxs: "distinct xs" and xn: "x \<notin> set xs" by simp_all
  from Cons.prems(3) have dx: "distinct (bec_keys c (Some x))" by simp
  from Cons.prems(4) have fx: "\<forall>lb\<in>set ?bx. 0 \<le> ?A lb \<and> bucket_rank c lb = None"
    by (simp add: buckets_Cons)
  from rank_level_8001_walk[OF Cons.prems(2) dx fx]
  obtain c1 rt1 rk1 where
    s: "rank_level_8001 t x (c, rt, rk) = (c1, rt1, rk1)"
    and tr1: "tracks t (P + sum_list (map ?A ?bx)) rt1 rk1"
    and o1: "\<And>lb. lb \<notin> set ?bx \<Longrightarrow>
              bucket_area c1 lb = bucket_area c lb \<and> bucket_rank c1 lb = bucket_rank c lb"
    and k1: "\<And>k. bec_keys c1 k = bec_keys c k"
    and r1: "\<And>pre lb post. ?bx = pre @ lb # post \<Longrightarrow>
        bucket_area c1 lb = ?A lb \<and>
        bucket_rank c1 lb = spec_rank t (P + sum_list (map ?A pre)) (?A lb)"
    by blast
  have b1: "buckets c1 xs = ?bxs" by (rule buckets_cong) (rule k1)
  have notx: "lb \<notin> set ?bx" if "lb \<in> set ?bxs" for lb
  proof
    assume "lb \<in> set ?bx"
    then have "fst lb = x" by (rule fst_level_buckets)
    moreover from that have "fst lb \<in> set xs" by (rule fst_buckets)
    ultimately show False using xn by simp
  qed
  have A1: "bucket_counted t c1 lb = ?A lb" if "lb \<in> set ?bxs" for lb
    using o1[OF notx[OF that]] by (simp add: bucket_counted_def)
  have sums: "map (bucket_counted t c1) ys = map ?A ys" if "set ys \<subseteq> set ?bxs" for ys
    using that A1 by (intro map_cong) auto
  have fresh1: "\<forall>lb\<in>set (buckets c1 xs). 0 \<le> bucket_counted t c1 lb \<and> bucket_rank c1 lb = None"
  proof
    fix lb assume "lb \<in> set (buckets c1 xs)"
    then have m: "lb \<in> set ?bxs" by (simp add: b1)
    then have "lb \<in> set (buckets c (x # xs))" by (simp add: buckets_Cons)
    with Cons.prems(4) have "0 \<le> ?A lb \<and> bucket_rank c lb = None" by blast
    with A1[OF m] o1[OF notx[OF m]]
    show "0 \<le> bucket_counted t c1 lb \<and> bucket_rank c1 lb = None" by simp
  qed
  have d1: "\<forall>l\<in>set xs. distinct (bec_keys c1 (Some l))"
    using Cons.prems(3) by (simp add: k1)
  from Cons.IH[OF dxs tr1 d1 fresh1]
  obtain c' rt' rk' where
    f: "fold (rank_level_8001 t) xs (c1, rt1, rk1) = (c', rt', rk')"
    and tr': "tracks t (P + sum_list (map ?A ?bx) +
                 sum_list (map (bucket_counted t c1) (buckets c1 xs))) rt' rk'"
    and o': "\<And>lb. lb \<notin> set (buckets c1 xs) \<Longrightarrow>
              bucket_area c' lb = bucket_area c1 lb \<and> bucket_rank c' lb = bucket_rank c1 lb"
    and k': "\<And>k. bec_keys c' k = bec_keys c1 k"
    and r': "\<And>pre lb post. buckets c1 xs = pre @ lb # post \<Longrightarrow>
        bucket_area c' lb = bucket_counted t c1 lb \<and>
        bucket_rank c' lb = spec_rank t (P + sum_list (map ?A ?bx) +
             sum_list (map (bucket_counted t c1) pre)) (bucket_counted t c1 lb)"
    by blast
  have 1: "fold (rank_level_8001 t) (x # xs) (c, rt, rk) = (c', rt', rk')"
    using s f by simp
  have 2: "tracks t (P + sum_list (map ?A (buckets c (x # xs)))) rt' rk'"
    using tr' sums[of ?bxs] by (simp add: b1 buckets_Cons add.assoc)
  have 3: "\<forall>lb. lb \<notin> set (buckets c (x # xs)) \<longrightarrow>
            bucket_area c' lb = bucket_area c lb \<and> bucket_rank c' lb = bucket_rank c lb"
  proof (intro allI impI)
    fix lb assume "lb \<notin> set (buckets c (x # xs))"
    then have a: "lb \<notin> set ?bx" and b: "lb \<notin> set (buckets c1 xs)"
      by (simp_all add: buckets_Cons b1)
    from o1[OF a] o'[OF b]
    show "bucket_area c' lb = bucket_area c lb \<and> bucket_rank c' lb = bucket_rank c lb" by simp
  qed
  have 4: "\<forall>k. bec_keys c' k = bec_keys c k" using k1 k' by simp
  have 5: "\<forall>pre lb post. buckets c (x # xs) = pre @ lb # post \<longrightarrow>
        bucket_area c' lb = ?A lb \<and>
        bucket_rank c' lb = spec_rank t (P + sum_list (map ?A pre)) (?A lb)"
  proof (intro allI impI)
    fix pre lb post assume "buckets c (x # xs) = pre @ lb # post"
    then have "?bx @ ?bxs = pre @ lb # post" by (simp add: buckets_Cons)
    from append_eq_append_Cons_cases[OF this]
    show "bucket_area c' lb = ?A lb \<and>
        bucket_rank c' lb = spec_rank t (P + sum_list (map ?A pre)) (?A lb)"
    proof
      assume "\<exists>us. ?bx = pre @ lb # us \<and> post = us @ ?bxs"
      then obtain us where e: "?bx = pre @ lb # us" by blast
      then have "lb \<in> set ?bx" by simp
      then have "fst lb = x" by (rule fst_level_buckets)
      then have "lb \<notin> set (buckets c1 xs)"
        using fst_buckets[of lb c1 xs] xn by auto
      from o'[OF this] r1[OF e] show ?thesis by simp
    next
      assume "\<exists>us. pre = ?bx @ us \<and> ?bxs = us @ lb # post"
      then obtain us where p: "pre = ?bx @ us" and e: "?bxs = us @ lb # post" by blast
      from e have e1: "buckets c1 xs = us @ lb # post" by (simp add: b1)
      from e have m: "lb \<in> set ?bxs" and sub: "set us \<subseteq> set ?bxs" by auto
      from r'[OF e1] show ?thesis
        using A1[OF m] sums[OF sub] by (simp add: p add.assoc)
    qed
  qed
  from 1 2 3 4 5 show ?case by blast
qed

subsection \<open>The rank pass over a cell\<close>

lemma tracks_start: "0 \<le> t \<Longrightarrow> tracks t 0 0 []"
  by (simp add: tracks_def str_ch_def)

lemma distinct_levels:
  "distinct lst_level_8006" "distinct walked_levels_8001"
  by (simp_all add: lst_level_8006_def walked_levels_8001_def lst_level_8001_def str_imm_8001_def)

lemma bucket_counted_nonneg:
  "0 \<le> t \<Longrightarrow> 0 \<le> bucket_area c lb \<Longrightarrow> 0 \<le> bucket_counted t c lb"
  by (simp add: bucket_counted_def counted_area_def)

lemma rank_cell_8006_ranks:
  assumes tg: "c_target c = Some t" and t0: "0 \<le> t" and rd: "ready_8006 c"
  shows "\<exists>c'. rank_cell_8006 c = Inr c' \<and>
     (\<forall>pre l post. lst_level_8006 = pre @ l # post \<longrightarrow>
         level_rank c' l = (if level_area c l = 0 then None
            else spec_rank t (sum_list (map (level_area c) pre)) (level_area c l)))"
proof -
  from rd have f: "\<forall>l\<in>set lst_level_8006. 0 \<le> level_area c l \<and> level_rank c l = None"
    by (simp add: ready_8006_def list_all_iff)
  from rank_levels_8006[OF distinct_levels(1) tracks_start[OF t0] f]
  obtain c' rt' rk' where
    w: "for_each (rank_level_8006 (Some t)) lst_level_8006 (c, 0, []) = Inr (c', rt', rk')"
    and r: "\<forall>pre l post. lst_level_8006 = pre @ l # post \<longrightarrow>
         level_rank c' l = (if level_area c l = 0 then None
            else spec_rank t (0 + sum_list (map (level_area c) pre)) (level_area c l))"
    by blast
  have "rank_cell_8006 c = Inr c'" using w tg by (simp add: rank_cell_8006_def)
  with r show ?thesis by simp
qed

lemma rank_cell_8001_ranks:
  assumes tg: "c_target c = Some t" and t0: "0 \<le> t" and rd: "ready_8001 c"
  shows "\<exists>c'. rank_cell_8001 c = Inr c' \<and>
     (\<forall>pre lb post. buckets c walked_levels_8001 = pre @ lb # post \<longrightarrow>
        bucket_area c' lb = bucket_counted t c lb \<and>
        bucket_rank c' lb =
          spec_rank t (sum_list (map (bucket_counted t c) pre)) (bucket_counted t c lb))"
proof -
  from rd have d: "\<forall>l\<in>set walked_levels_8001. distinct (bec_keys c (Some l))"
    and f0: "\<forall>lb\<in>set (buckets c walked_levels_8001). 0 \<le> bucket_area c lb \<and> bucket_rank c lb = None"
    by (simp_all add: ready_8001_def list_all_iff)
  from f0 t0 have f: "\<forall>lb\<in>set (buckets c walked_levels_8001).
      0 \<le> bucket_counted t c lb \<and> bucket_rank c lb = None"
    by (simp add: bucket_counted_nonneg)
  from rank_levels_8001_walk[OF distinct_levels(2) tracks_start[OF t0] d f]
  obtain c' rt' rk' where
    w: "fold (rank_level_8001 t) walked_levels_8001 (c, 0, []) = (c', rt', rk')"
    and r: "\<forall>pre lb post. buckets c walked_levels_8001 = pre @ lb # post \<longrightarrow>
        bucket_area c' lb = bucket_counted t c lb \<and>
        bucket_rank c' lb =
          spec_rank t (0 + sum_list (map (bucket_counted t c) pre)) (bucket_counted t c lb)"
    by blast
  have "rank_cell_8001 c = Inr c'"
    using w tg by (simp add: rank_cell_8001_def walked_levels_8001_def)
  with r show ?thesis by simp
qed


lemma spec_rank_ch: "spec_rank t before a = Some str_ch \<longleftrightarrow> before \<le> t \<and> t < before + a"
  by (auto simp: spec_rank_def str_nh_ne_ch)

lemma spec_rank_none: "spec_rank t before a = None \<longleftrightarrow> t < before \<and> t < before + a"
  by (auto simp: spec_rank_def)

subsection \<open>Claims on the rank pass\<close>

lemma frozen_bec_8001:
  "snd (rank_bec_8001 t l b (c, rt, str_ch)) = (rt, str_ch)"
  by (simp add: rank_bec_8001_def rank_update_8001_def Let_def)


text \<open>Unfolding the rank pass on a cell given in full.\<close>

lemmas eval_8006 = rank_cell_8006_def rank_level_8006_def lst_level_8006_def Let_def
  add_level_hectares_def upd_level_def get_level_def new_CellArea_def new_Level_def
  level_rank_def level_area_def str_nh_def str_ch_def str_mature_def ready_8006_def

lemmas eval_8001 = rank_cell_8001_def rank_level_8001_def rank_bec_8001_def
  rank_update_8001_def lst_level_8001_def walked_levels_8001_def Let_def
  add_level_hectares_def add_bec_hectares_def upd_bec_def get_bec_def
  upd_level_def get_level_def new_CellArea_def new_Level_def new_BEC_def
  bucket_rank_def bucket_area_def bucket_counted_def counted_area_def bec_keys_def
  level_buckets_def buckets_def ready_8001_def
  str_nh_def str_ch_def str_sic_def str_nthlb_sic_def str_imm_8001_def
  startswith_def startswith_any_def

text \<open>
  Claim C10: in the rank pass of Gar8006 a level with exactly zero hectares is skipped. One
  iteration on such a level, from any running total and local rank and for any target (also
  a missing one), returns with the running total and the local rank as they were, every level
  of the cell as it was (so the rank of the level stays what it was) and the no-harvest and
  conditional-harvest sums unchanged; the only trace is that the level now exists in the
  dictionary. After the whole pass over a cell as the accumulation leaves it, every level of
  zero hectares has no rank, whatever the target is.
\<close>

theorem zero_level_skipped:
  "(level_area c l = 0 \<longrightarrow>
      rank_level_8006 tgt l (c, rt, rk) = Inr (upd_level (Some l) id c, rt, rk) \<and>
      (\<forall>k. get_level (upd_level (Some l) id c) k = get_level c k) \<and>
      level_rank (upd_level (Some l) id c) l = level_rank c l \<and>
      c_nh_hectares (upd_level (Some l) id c) = c_nh_hectares c \<and>
      c_ch_hectares (upd_level (Some l) id c) = c_ch_hectares c) \<and>
   (c_target c = Some t \<and> 0 \<le> t \<and> ready_8006 c \<longrightarrow>
      (\<exists>c'. rank_cell_8006 c = Inr c' \<and>
         (\<forall>l\<in>set lst_level_8006. level_area c l = 0 \<longrightarrow> level_rank c' l = None)))"
proof (intro conjI impI)
  assume z: "level_area c l = 0"
  show "rank_level_8006 tgt l (c, rt, rk) = Inr (upd_level (Some l) id c, rt, rk)"
    using z by (rule rank_level_8006_zero)
  show "\<forall>k. get_level (upd_level (Some l) id c) k = get_level c k"
    by (simp add: get_level_upd_level)
  show "level_rank (upd_level (Some l) id c) l = level_rank c l"
    by (simp add: level_rank_def get_level_upd_level)
  show "c_nh_hectares (upd_level (Some l) id c) = c_nh_hectares c"
    by (simp add: upd_level_scalars)
  show "c_ch_hectares (upd_level (Some l) id c) = c_ch_hectares c"
    by (simp add: upd_level_scalars)
next
  assume a: "c_target c = Some t \<and> 0 \<le> t \<and> ready_8006 c"
  then have tg: "c_target c = Some t" and t0: "0 \<le> t" and rd: "ready_8006 c" by simp_all
  from rank_cell_8006_ranks[OF tg t0 rd]
  obtain c' where r: "rank_cell_8006 c = Inr c'"
    and k: "\<And>pre l post. lst_level_8006 = pre @ l # post \<Longrightarrow>
         level_rank c' l = (if level_area c l = 0 then None
            else spec_rank t (sum_list (map (level_area c) pre)) (level_area c l))"
    by blast
  have "\<forall>l\<in>set lst_level_8006. level_area c l = 0 \<longrightarrow> level_rank c' l = None"
  proof (intro ballI impI)
    fix l assume "l \<in> set lst_level_8006" and z: "level_area c l = 0"
    then obtain pre post where "lst_level_8006 = pre @ l # post"
      by (auto simp: in_set_conv_decomp)
    from k[OF this] z show "level_rank c' l = None" by simp
  qed
  with r show "\<exists>c'. rank_cell_8006 c = Inr c' \<and>
         (\<forall>l\<in>set lst_level_8006. level_area c l = 0 \<longrightarrow> level_rank c' l = None)"
    by blast
qed

theorem zero_level_skipped_witness:
  "level_area
     ((add_level_hectares (Some ''Recruit 1'') 60 new_CellArea)\<lparr>c_target := Some 100\<rparr>)
     ''Mature Cover'' = 0 \<and>
   rank_level_8006 (Some 100) ''Mature Cover''
     ((add_level_hectares (Some ''Recruit 1'') 60 new_CellArea)\<lparr>c_target := Some 100\<rparr>, 0, [])
     = Inr (upd_level (Some ''Mature Cover'') id
             ((add_level_hectares (Some ''Recruit 1'') 60 new_CellArea)\<lparr>c_target := Some 100\<rparr>),
            0, []) \<and>
   ready_8006 ((add_level_hectares (Some ''Recruit 1'') 60 new_CellArea)\<lparr>c_target := Some 100\<rparr>) \<and>
   (\<exists>c'. rank_cell_8006
            ((add_level_hectares (Some ''Recruit 1'') 60 new_CellArea)\<lparr>c_target := Some 100\<rparr>)
          = Inr c' \<and> level_rank c' ''Mature Cover'' = None)"
proof -
  let ?d = "(add_level_hectares (Some ''Recruit 1'') 60 new_CellArea)\<lparr>c_target := Some 100\<rparr>"
  note t = zero_level_skipped [where c = ?d and l = "''Mature Cover''" and tgt = "Some 100"
      and rt = 0 and rk = "[]" and t = 100]
  have z: "level_area ?d ''Mature Cover'' = 0" by (simp add: eval_8006)
  have rd: "ready_8006 ?d" by (simp add: eval_8006)
  have h: "c_target ?d = Some 100 \<and> (0::real) \<le> 100 \<and> ready_8006 ?d"
    using rd by (simp add: add_level_hectares_def upd_level_def)
  have m: "''Mature Cover'' \<in> set lst_level_8006" by (simp add: lst_level_8006_def)
  have 1: "rank_level_8006 (Some 100) ''Mature Cover'' (?d, 0, [])
      = Inr (upd_level (Some ''Mature Cover'') id ?d, 0, [])"
    using t [THEN conjunct1, THEN mp, OF z] by blast
  from t [THEN conjunct2, THEN mp, OF h]
  obtain c' where r: "rank_cell_8006 ?d = Inr c'"
    and k: "\<forall>l\<in>set lst_level_8006. level_area ?d l = 0 \<longrightarrow> level_rank c' l = None"
    by blast
  from k m z have "level_rank c' ''Mature Cover'' = None" by blast
  with z 1 rd r show ?thesis by blast
qed




text \<open>
  Claim C3: the Conditional-Harvest state is sticky. In a cell as the accumulation leaves it,
  with a target that is not negative, once a bucket of the walk has been ranked
  Conditional-Harvest every later bucket of the walk ends without a rank, so none is
  No-Harvest: in Gar8001 over the (level, bec) buckets, in Gar8006 over the levels. One
  iteration that starts in the Conditional-Harvest state leaves the running total and the
  local rank as they were, in both modules.
\<close>

theorem conditional_harvest_sticky:
  "(c_target c = Some t \<and> 0 \<le> t \<and> ready_8001 c \<longrightarrow>
      (\<exists>c'. rank_cell_8001 c = Inr c' \<and>
         (\<forall>pre lb mid lb' post.
            buckets c walked_levels_8001 = pre @ lb # mid @ lb' # post \<and>
            bucket_rank c' lb = Some str_ch \<longrightarrow> bucket_rank c' lb' = None))) \<and>
   (c_target d = Some u \<and> 0 \<le> u \<and> ready_8006 d \<longrightarrow>
      (\<exists>d'. rank_cell_8006 d = Inr d' \<and>
         (\<forall>pre l mid l' post.
            lst_level_8006 = pre @ l # mid @ l' # post \<and>
            level_rank d' l = Some str_ch \<longrightarrow> level_rank d' l' = None))) \<and>
   snd (rank_bec_8001 t lv b (c, rt, str_ch)) = (rt, str_ch) \<and>
   rank_level_8006 tgt lv (d, rt, str_ch) = Inr (upd_level (Some lv) id d, rt, str_ch)"
proof (intro conjI impI)
  assume a: "c_target c = Some t \<and> 0 \<le> t \<and> ready_8001 c"
  then have tg: "c_target c = Some t" and t0: "0 \<le> t" and rd: "ready_8001 c" by simp_all
  let ?A = "bucket_counted t c"
  from rank_cell_8001_ranks[OF tg t0 rd]
  obtain c' where r: "rank_cell_8001 c = Inr c'"
    and k: "\<And>pre lb post. buckets c walked_levels_8001 = pre @ lb # post \<Longrightarrow>
        bucket_rank c' lb = spec_rank t (sum_list (map ?A pre)) (?A lb)"
    by blast
  from rd t0 have nn: "\<And>lb. lb \<in> set (buckets c walked_levels_8001) \<Longrightarrow> 0 \<le> ?A lb"
    by (simp add: ready_8001_def list_all_iff bucket_counted_nonneg)
  have "\<forall>pre lb mid lb' post.
            buckets c walked_levels_8001 = pre @ lb # mid @ lb' # post \<and>
            bucket_rank c' lb = Some str_ch \<longrightarrow> bucket_rank c' lb' = None"
  proof (intro allI impI)
    fix pre lb mid lb' post
    assume h: "buckets c walked_levels_8001 = pre @ lb # mid @ lb' # post \<and>
            bucket_rank c' lb = Some str_ch"
    then have d: "buckets c walked_levels_8001 = pre @ lb # (mid @ lb' # post)"
      and d': "buckets c walked_levels_8001 = (pre @ lb # mid) @ lb' # post"
      and ch: "bucket_rank c' lb = Some str_ch" by simp_all
    from k[OF d] ch have "spec_rank t (sum_list (map ?A pre)) (?A lb) = Some str_ch"
      by simp
    then have over: "t < sum_list (map ?A pre) + ?A lb"
      by (simp only: spec_rank_ch)
    have "0 \<le> sum_list (map ?A mid)"
      by (rule sum_list_nonneg) (auto simp: d intro: nn)
    moreover have "0 \<le> ?A lb'" by (rule nn) (simp add: d)
    ultimately have "t < sum_list (map ?A (pre @ lb # mid)) \<and>
        t < sum_list (map ?A (pre @ lb # mid)) + ?A lb'"
      using over by simp
    with k[OF d'] show "bucket_rank c' lb' = None" by (simp add: spec_rank_none)
  qed
  with r show "\<exists>c'. rank_cell_8001 c = Inr c' \<and>
         (\<forall>pre lb mid lb' post.
            buckets c walked_levels_8001 = pre @ lb # mid @ lb' # post \<and>
            bucket_rank c' lb = Some str_ch \<longrightarrow> bucket_rank c' lb' = None)"
    by blast
next
  assume a: "c_target d = Some u \<and> 0 \<le> u \<and> ready_8006 d"
  then have tg: "c_target d = Some u" and t0: "0 \<le> u" and rd: "ready_8006 d" by simp_all
  let ?A = "level_area d"
  from rank_cell_8006_ranks[OF tg t0 rd]
  obtain d' where r: "rank_cell_8006 d = Inr d'"
    and k: "\<And>pre l post. lst_level_8006 = pre @ l # post \<Longrightarrow>
         level_rank d' l = (if ?A l = 0 then None
            else spec_rank u (sum_list (map ?A pre)) (?A l))"
    by blast
  from rd have nn: "\<And>l. l \<in> set lst_level_8006 \<Longrightarrow> 0 \<le> ?A l"
    by (simp add: ready_8006_def list_all_iff)
  have "\<forall>pre l mid l' post.
            lst_level_8006 = pre @ l # mid @ l' # post \<and>
            level_rank d' l = Some str_ch \<longrightarrow> level_rank d' l' = None"
  proof (intro allI impI)
    fix pre l mid l' post
    assume h: "lst_level_8006 = pre @ l # mid @ l' # post \<and> level_rank d' l = Some str_ch"
    then have e: "lst_level_8006 = pre @ l # (mid @ l' # post)"
      and e': "lst_level_8006 = (pre @ l # mid) @ l' # post"
      and ch: "level_rank d' l = Some str_ch" by simp_all
    from k[OF e] ch have "spec_rank u (sum_list (map ?A pre)) (?A l) = Some str_ch"
      by (simp split: if_splits)
    then have over: "u < sum_list (map ?A pre) + ?A l"
      by (simp only: spec_rank_ch)
    have "0 \<le> sum_list (map ?A mid)"
      by (rule sum_list_nonneg) (auto simp: e intro: nn)
    moreover have "0 \<le> ?A l'" by (rule nn) (simp add: e)
    ultimately have "u < sum_list (map ?A (pre @ l # mid)) \<and>
        u < sum_list (map ?A (pre @ l # mid)) + ?A l'"
      using over by simp
    with k[OF e'] show "level_rank d' l' = None" by (simp add: spec_rank_none)
  qed
  with r show "\<exists>d'. rank_cell_8006 d = Inr d' \<and>
         (\<forall>pre l mid l' post.
            lst_level_8006 = pre @ l # mid @ l' # post \<and>
            level_rank d' l = Some str_ch \<longrightarrow> level_rank d' l' = None)"
    by blast
next
  show "snd (rank_bec_8001 t lv b (c, rt, str_ch)) = (rt, str_ch)" by (rule frozen_bec_8001)
  show "rank_level_8006 tgt lv (d, rt, str_ch) = Inr (upd_level (Some lv) id d, rt, str_ch)"
    by (rule rank_level_8006_frozen)
qed

theorem conditional_harvest_sticky_witness:
  "(\<exists>c'. rank_cell_8001
      ((add_bec_hectares (Some ''SIC'') ''IDFdk1'' 60
         (add_bec_hectares (Some ''Recruit 1'') ''IDFdk1'' 50
           (add_bec_hectares (Some ''Recruit 2'') ''IDFdk1'' 10 new_CellArea)))\<lparr>c_target := Some 100\<rparr>)
      = Inr c' \<and>
      bucket_rank c' (''Recruit 1'', ''IDFdk1'') = Some str_ch \<and>
      bucket_rank c' (''Recruit 2'', ''IDFdk1'') = None) \<and>
   (\<exists>d'. rank_cell_8006
      ((add_level_hectares (Some ''Recruit 1'') 60
         (add_level_hectares (Some ''Recruit 2'') 50
           (add_level_hectares (Some ''Recruit 3'') 10 new_CellArea)))\<lparr>c_target := Some 100\<rparr>)
      = Inr d' \<and>
      level_rank d' ''Recruit 2'' = Some str_ch \<and>
      level_rank d' ''Recruit 3'' = None)"
proof -
  let ?c = "(add_bec_hectares (Some ''SIC'') ''IDFdk1'' 60
         (add_bec_hectares (Some ''Recruit 1'') ''IDFdk1'' 50
           (add_bec_hectares (Some ''Recruit 2'') ''IDFdk1'' 10 new_CellArea)))\<lparr>c_target := Some 100\<rparr>"
  let ?d = "(add_level_hectares (Some ''Recruit 1'') 60
         (add_level_hectares (Some ''Recruit 2'') 50
           (add_level_hectares (Some ''Recruit 3'') 10 new_CellArea)))\<lparr>c_target := Some 100\<rparr>"
  let ?l1 = "(''SIC'', ''IDFdk1'')" and ?l2 = "(''Recruit 1'', ''IDFdk1'')"
    and ?l3 = "(''Recruit 2'', ''IDFdk1'')"
  note t = conditional_harvest_sticky [where c = ?c and t = 100 and d = ?d and u = 100]
  have tc: "c_target ?c = Some 100"
    by (simp add: add_bec_hectares_def upd_bec_def upd_level_def)
  have td: "c_target ?d = Some 100"
    by (simp add: add_level_hectares_def upd_level_def)
  have rc: "ready_8001 ?c" by (simp add: eval_8001)
  have rd: "ready_8006 ?d" by (simp add: eval_8006)
  have bc: "buckets ?c walked_levels_8001 = [?l1] @ ?l2 # [] @ ?l3 # []"
    by (simp add: eval_8001)
  have ec: "map_sum id (\<lambda>c'. bucket_rank c' ?l2) (rank_cell_8001 ?c) = Inr (Some str_ch)"
    by (simp add: eval_8001)
  have ed: "map_sum id (\<lambda>d'. level_rank d' ''Recruit 2'') (rank_cell_8006 ?d) = Inr (Some str_ch)"
    by (simp add: eval_8006)
  have ld: "lst_level_8006 = [''Mature Cover'', ''Recruit 1''] @ ''Recruit 2'' # [] @
      ''Recruit 3'' # tl (tl (tl (tl lst_level_8006)))"
    by (simp add: lst_level_8006_def)
  have h1: "c_target ?c = Some 100 \<and> (0::real) \<le> 100 \<and> ready_8001 ?c"
    using tc rc by simp
  have h2: "c_target ?d = Some 100 \<and> (0::real) \<le> 100 \<and> ready_8006 ?d"
    using td rd by simp
  from t [THEN conjunct1, THEN mp, OF h1]
  obtain c1 where r1: "rank_cell_8001 ?c = Inr c1"
    and k1: "\<forall>pre lb mid lb' post.
            buckets ?c walked_levels_8001 = pre @ lb # mid @ lb' # post \<and>
            bucket_rank c1 lb = Some str_ch \<longrightarrow> bucket_rank c1 lb' = None"
    by blast
  from ec r1 have x1: "bucket_rank c1 ?l2 = Some str_ch" by simp
  from k1 bc x1 have y1: "bucket_rank c1 ?l3 = None" by blast
  from t [THEN conjunct2, THEN conjunct1, THEN mp, OF h2]
  obtain d1 where q1: "rank_cell_8006 ?d = Inr d1"
    and j1: "\<forall>pre l mid l' post.
            lst_level_8006 = pre @ l # mid @ l' # post \<and>
            level_rank d1 l = Some str_ch \<longrightarrow> level_rank d1 l' = None"
    by blast
  from ed q1 have x2: "level_rank d1 ''Recruit 2'' = Some str_ch" by simp
  from j1 ld x2 have y2: "level_rank d1 ''Recruit 3'' = None" by blast
  have A: "\<exists>c'. rank_cell_8001 ?c = Inr c' \<and> bucket_rank c' ?l2 = Some str_ch \<and>
      bucket_rank c' ?l3 = None"
    using r1 x1 y1 by blast
  have B: "\<exists>d'. rank_cell_8006 ?d = Inr d' \<and> level_rank d' ''Recruit 2'' = Some str_ch \<and>
      level_rank d' ''Recruit 3'' = None"
    using q1 x2 y2 by blast
  from A B show ?thesis by (rule conjI)
qed



end
